theory Spec2Isabelle
  imports Main "HOL-Library.Word" "HOL-Library.AList" "HOL-Library.Product_Lexorder"
begin

unbundle bit_operations_syntax

section \<open>Python string primitives (ASCII)\<close>

text \<open>
  Source strings are modelled as \<open>string\<close> (a list of 8-bit characters); the model covers
  ASCII input.  The helpers below follow the behaviour of the Python \<open>str\<close> methods the
  assembler calls.
\<close>

definition is_space :: "char \<Rightarrow> bool" where
  "is_space c = (c \<in> set [CHR 0x09, CHR 0x0A, CHR 0x0B, CHR 0x0C, CHR 0x0D,
                           CHR 0x1C, CHR 0x1D, CHR 0x1E, CHR 0x1F, CHR '' ''])"

definition lower_letters :: string where
  "lower_letters = ''abcdefghijklmnopqrstuvwxyz''"

definition upper_letters :: string where
  "upper_letters = ''ABCDEFGHIJKLMNOPQRSTUVWXYZ''"

definition upper_char :: "char \<Rightarrow> char" where
  "upper_char c = (case map_of (zip lower_letters upper_letters) c of Some u \<Rightarrow> u | None \<Rightarrow> c)"

definition lower_char :: "char \<Rightarrow> char" where
  "lower_char c = (case map_of (zip upper_letters lower_letters) c of Some l \<Rightarrow> l | None \<Rightarrow> c)"

definition py_upper :: "string \<Rightarrow> string" where
  "py_upper s = map upper_char s"

definition py_lower :: "string \<Rightarrow> string" where
  "py_lower s = map lower_char s"

definition py_strip :: "string \<Rightarrow> string" where
  "py_strip s = rev (dropWhile is_space (rev (dropWhile is_space s)))"

definition startswith :: "string \<Rightarrow> string \<Rightarrow> bool" where
  "startswith s p = (take (length p) s = p)"

definition endswith :: "string \<Rightarrow> string \<Rightarrow> bool" where
  "endswith s p = (length p \<le> length s \<and> drop (length s - length p) s = p)"

section \<open>Linker: size-and-address convergence (\<open>Linker._optimize_instruction_sizes\<close>)\<close>

text \<open>
  An instruction record of an object file is the tuple
  \<open>(address, opcode, operand, source_text, size)\<close>.
\<close>

type_synonym instr = "int \<times> int \<times> int option \<times> string \<times> int"

definition i_addr :: "instr \<Rightarrow> int" where
  "i_addr i = fst i"

definition i_src :: "instr \<Rightarrow> string" where
  "i_src i = fst (snd (snd (snd i)))"

definition i_size :: "instr \<Rightarrow> int" where
  "i_size i = snd (snd (snd (snd i)))"

definition i_set_addr :: "instr \<Rightarrow> int \<Rightarrow> instr" where
  "i_set_addr i a = (a, snd i)"

record object_file =
  filename :: string
  instructions :: "instr list"
  instruction_lines :: "int list"
  labels :: "(string \<times> int) list"
  label_lines :: "(string \<times> int) list"
  constants :: "(string \<times> int) list"
  unresolved_symbols :: "(string \<times> int) list"
  code_size :: int

text \<open>Diagnostics the loop sends to the logger, in order.\<close>

datatype link_log =
    Debug_pass nat
  | Info_stabilized nat
  | Info_forcing_another_pass nat
  | Warning_not_converged nat
  | Error_load_failed

text \<open>
  The re-encoder (\<open>parse_instruction_line\<close> followed by \<open>encode_instruction\<close>) is a parameter
  of the loop: given the global label map, the instruction's address and its source text it
  yields \<open>None\<close> (not an instruction, or encoding failed) or the new binary value and the
  chosen row's \<open>opcode_size\<close> in bits.
\<close>

type_synonym reencoder = "(string \<rightharpoonup> int) \<Rightarrow> int \<Rightarrow> string \<Rightarrow> (int \<times> int) option"

definition max_iterations :: nat where
  "max_iterations = 10"

definition build_global_labels :: "object_file list \<Rightarrow> (string \<rightharpoonup> int)" where
  "build_global_labels objs =
     fold (\<lambda>obj m. fold (\<lambda>(n, a) m'. m'(n \<mapsto> a)) (labels obj) m) objs Map.empty"

definition data_prefixes :: "string list" where
  "data_prefixes = [''DB'', ''DW'', ''DD'', ''DQ'', ''DT'', ''DO'', ''DY'', ''DZ'', ''RESB'', ''TIMES'']"

definition is_data_source :: "string \<Rightarrow> bool" where
  "is_data_source src = (\<exists>p \<in> set data_prefixes. startswith (py_upper (py_strip src)) p)"

definition reencode_one :: "reencoder \<Rightarrow> (string \<rightharpoonup> int) \<Rightarrow> instr \<Rightarrow> instr \<times> bool" where
  "reencode_one enc gl i =
     (case i of (address, opcode, operand, source_text, old_size) \<Rightarrow>
        if is_data_source source_text then (i, False)
        else (case enc gl address source_text of
                None \<Rightarrow> (i, False)
              | Some (binary_value, opcode_size) \<Rightarrow>
                  (let new_size = opcode_size div 8
                   in ((address, binary_value, operand, source_text, new_size), new_size \<noteq> old_size))))"

text \<open>
  Sequential layout preserving gaps.  \<open>prev_old\<close> is the previous record of the object's
  original list, \<open>prev_final\<close> the previous record already laid out.
\<close>

fun relayout :: "instr \<Rightarrow> instr \<Rightarrow> (instr \<times> instr) list \<Rightarrow> instr list" where
  "relayout prev_old prev_final [] = []"
| "relayout prev_old prev_final ((old, new) # rest) =
     (let expected_old = i_addr prev_old + i_size prev_old;
          expected_new = i_addr prev_final + i_size prev_final;
          new_addr = (if i_addr new > expected_old
                      then expected_new + (i_addr new - expected_old)
                      else expected_new);
          fin = i_set_addr new new_addr
      in fin # relayout old fin rest)"

definition layout :: "instr list \<Rightarrow> instr list \<Rightarrow> instr list" where
  "layout olds news =
     (case zip olds news of
        [] \<Rightarrow> []
      | (old0, new0) # rest \<Rightarrow> new0 # relayout old0 new0 rest)"

definition branch_prefixes :: "string list" where
  "branch_prefixes = [''J'', ''CALL'', ''JNZ'', ''JZ'', ''JEQ'', ''JNE'', ''JL'', ''LOOP'']"

fun find_index_from :: "nat \<Rightarrow> ('a \<Rightarrow> bool) \<Rightarrow> 'a list \<Rightarrow> nat option" where
  "find_index_from k P [] = None"
| "find_index_from k P (x # xs) = (if P x then Some k else find_index_from (Suc k) P xs)"

definition update_label :: "instr list \<Rightarrow> instr list \<Rightarrow> string \<times> int \<Rightarrow> string \<times> int" where
  "update_label news finals l =
     (case l of (label_name, label_addr) \<Rightarrow>
        let addr_map = fold (\<lambda>(old_i, new_i) m. m(i_addr old_i \<mapsto> i_addr new_i)) (zip news finals) Map.empty
        in (case addr_map label_addr of
              Some mapped \<Rightarrow>
                (case find_index_from 0 (\<lambda>i. i_addr i = label_addr) news of
                   Some inst_idx \<Rightarrow>
                     (let source_upper = py_upper (py_strip (i_src (news ! inst_idx)));
                          is_branch = (\<exists>p \<in> set branch_prefixes. startswith source_upper p);
                          is_likely_function =
                            (inst_idx = 0 \<or>
                             (CHR ''_'' \<in> set label_name \<and> endswith label_name ''Assembly''))
                      in if is_branch \<and> \<not> is_likely_function \<and> inst_idx + 1 < length finals
                         then (label_name, i_addr (finals ! (inst_idx + 1)))
                         else (label_name, mapped))
                 | None \<Rightarrow> (label_name, mapped))
            | None \<Rightarrow>
                (let below = filter (\<lambda>a. a \<le> label_addr) (map i_addr news)
                 in (case below of
                       [] \<Rightarrow> (label_name, label_addr)
                     | b # bs \<Rightarrow>
                         (let old_addr = fold max bs b;
                              shift = (case addr_map old_addr of Some n \<Rightarrow> n - old_addr | None \<Rightarrow> 0)
                          in (label_name, label_addr + shift))))))"

definition optimize_object :: "reencoder \<Rightarrow> (string \<rightharpoonup> int) \<Rightarrow> object_file \<Rightarrow> object_file \<times> bool" where
  "optimize_object enc gl obj =
     (let res = map (reencode_one enc gl) (instructions obj);
          new_instructions = map fst res;
          changed = (\<exists>c \<in> set (map snd res). c);
          final_instructions = layout (instructions obj) new_instructions;
          updated_labels = map (update_label new_instructions final_instructions) (labels obj)
      in (obj\<lparr>instructions := final_instructions, labels := updated_labels\<rparr>, changed))"

text \<open>One iteration of the \<open>while\<close> body: every object is re-encoded against the label map
  built at the start of the iteration.\<close>

definition optimization_pass :: "reencoder \<Rightarrow> object_file list \<Rightarrow> object_file list \<times> bool" where
  "optimization_pass enc objs =
     (let gl = build_global_labels objs;
          res = map (optimize_object enc gl) objs
      in (map fst res, (\<exists>c \<in> set (map snd res). c)))"

function optimize_loop ::
  "reencoder \<Rightarrow> nat \<Rightarrow> object_file list \<Rightarrow> link_log list \<Rightarrow> object_file list \<times> nat \<times> link_log list"
where
  "optimize_loop enc iteration objs lg =
     (if iteration < max_iterations then
        (let iteration' = iteration + 1;
             lg1 = lg @ [Debug_pass iteration'];
             (objs', sizes_changed) = optimization_pass enc objs
         in if \<not> sizes_changed \<and> iteration' \<ge> 2
            then (objs', iteration', lg1 @ [Info_stabilized iteration'])
            else optimize_loop enc iteration' objs'
                   (if \<not> sizes_changed then lg1 @ [Info_forcing_another_pass iteration'] else lg1))
      else (objs, iteration, lg))"
  by pat_completeness auto
termination
  by (relation "measure (\<lambda>(enc, iteration, objs, lg). max_iterations - iteration)") auto

declare optimize_loop.simps [simp del]

text \<open>
  \<open>loaded\<close> is the outcome of loading the instruction table and creating the encoder
  (the \<open>try\<close> block in front of the loop); the result is the returned flag, the rewritten
  object files and the diagnostics.
\<close>

definition optimize_instruction_sizes ::
  "bool \<Rightarrow> reencoder \<Rightarrow> object_file list \<Rightarrow> bool \<times> object_file list \<times> link_log list"
where
  "optimize_instruction_sizes loaded enc objs =
     (if \<not> loaded then (False, objs, [Error_load_failed])
      else (case optimize_loop enc 0 objs [] of
              (objs', iteration, lg) \<Rightarrow>
                (True, objs',
                 if iteration \<ge> max_iterations then lg @ [Warning_not_converged max_iterations] else lg)))"

text \<open>The state after \<open>k\<close> iterations, and whether iteration \<open>k\<close> changed a size.\<close>

fun state_after :: "reencoder \<Rightarrow> object_file list \<Rightarrow> nat \<Rightarrow> object_file list" where
  "state_after enc objs 0 = objs"
| "state_after enc objs (Suc k) = fst (optimization_pass enc (state_after enc objs k))"

definition sizes_changed_in :: "reencoder \<Rightarrow> object_file list \<Rightarrow> nat \<Rightarrow> bool" where
  "sizes_changed_in enc objs k = snd (optimization_pass enc (state_after enc objs (k - 1)))"

definition passes_logged :: "link_log list \<Rightarrow> nat" where
  "passes_logged lg = length (filter (\<lambda>e. case e of Debug_pass _ \<Rightarrow> True | _ \<Rightarrow> False) lg)"

text \<open>
  What the loop guarantees when entered with \<open>it\<close> iterations already done on the initial
  objects \<open>objs0\<close>: it stops after \<open>n\<close> iterations in total, never beyond the cap; the result
  is the state after \<open>n\<close> iterations; a stabilisation message is emitted only for the last
  iteration, only from the second iteration on and only if that iteration changed no size;
  without such a message the cap was reached; and no earlier iteration qualified for exit.
\<close>

definition loop_post ::
  "reencoder \<Rightarrow> object_file list \<Rightarrow> nat \<Rightarrow> link_log list \<Rightarrow>
   object_file list \<times> nat \<times> link_log list \<Rightarrow> bool"
where
  "loop_post enc objs0 it lg r =
     (case r of (objs', n, lg') \<Rightarrow>
        it \<le> n \<and> (it < max_iterations \<longrightarrow> it < n \<and> n \<le> max_iterations) \<and>
        objs' = state_after enc objs0 n \<and>
        (\<exists>new. lg' = lg @ new \<and> passes_logged new = n - it \<and>
           (\<forall>k. Info_stabilized k \<in> set new \<longrightarrow>
                  k = n \<and> 2 \<le> n \<and> \<not> sizes_changed_in enc objs0 n) \<and>
           ((\<forall>k. Info_stabilized k \<notin> set new) \<longrightarrow> max_iterations \<le> n) \<and>
           (\<forall>k. Warning_not_converged k \<notin> set new)) \<and>
        (\<forall>k. it < k \<and> k < n \<longrightarrow> sizes_changed_in enc objs0 k \<or> k < 2))"

text \<open>
  An input on which the sizes oscillate: the first instruction is re-encoded as 16-bit
  when label \<open>L\<close> is word-aligned and as 32-bit otherwise, and \<open>L\<close> follows it.  The
  loop stops at the cap after ten iterations, logs the warning and reports success.
\<close>

definition oscillating_encoder :: reencoder where
  "oscillating_encoder gl a s =
     (if s = ''J L'' then
        (case gl ''L'' of Some t \<Rightarrow> Some (0, if t mod 4 = 0 then 16 else 32) | None \<Rightarrow> None)
      else None)"

definition oscillating_object :: object_file where
  "oscillating_object =
     \<lparr>filename = ''a.obj'',
      instructions = [(100, 0, None, ''J L'', 4), (104, 0, None, ''NOP'', 4)],
      instruction_lines = [1, 3], labels = [(''L'', 104)], label_lines = [(''L'', 2)],
      constants = [], unresolved_symbols = [], code_size = 8\<rparr>"

section \<open>Linker: Intel HEX output\<close>

definition hex_chars :: string where
  "hex_chars = ''0123456789ABCDEF''"

definition hex_char :: "nat \<Rightarrow> char" where
  "hex_char d = hex_chars ! d"

fun hex_digits :: "nat \<Rightarrow> string" where
  "hex_digits n = (if n < 16 then [hex_char n] else hex_digits (n div 16) @ [hex_char (n mod 16)])"

declare hex_digits.simps [simp del]

text \<open>Python's \<open>format(v, '0wX')\<close>: upper-case hexadecimal, zero-padded to width \<open>w\<close>
  (the sign of a negative value counts towards the width).\<close>

definition format_X :: "nat \<Rightarrow> int \<Rightarrow> string" where
  "format_X w v =
     (if v < 0
      then (let ds = hex_digits (nat (- v)) in CHR ''-'' # replicate (w - 1 - length ds) CHR ''0'' @ ds)
      else (let ds = hex_digits (nat v) in replicate (w - length ds) CHR ''0'' @ ds))"

definition newline :: char where
  "newline = CHR 0x0A"

definition write_extended_address_record :: "int \<Rightarrow> string" where
  "write_extended_address_record extended_addr =
     (let byte_count = 0x02;
          address = (0x0000 :: int);
          record_type = 0x04;
          data_high = (drop_bit 8 extended_addr) AND 0xFF;
          data_low = extended_addr AND 0xFF;
          checksum = byte_count + (drop_bit 8 address) + (address AND 0xFF) + record_type
                     + data_high + data_low;
          checksum = (- checksum) AND 0xFF
      in '':'' @ format_X 2 byte_count @ format_X 4 address @ format_X 2 record_type
         @ format_X 2 data_high @ format_X 2 data_low @ format_X 2 checksum @ [newline])"

definition write_hex_record :: "int \<Rightarrow> int list \<Rightarrow> string" where
  "write_hex_record address data =
     (let byte_count = int (length data);
          address_16bit = address AND 0xFFFF;
          address_high = (drop_bit 8 address_16bit) AND 0xFF;
          address_low = address_16bit AND 0xFF;
          record_type = 0x00;
          checksum = byte_count + address_high + address_low + record_type;
          checksum = fold (\<lambda>byte_val c. c + byte_val) data checksum;
          checksum = (- checksum) AND 0xFF;
          record = '':'' @ format_X 2 byte_count @ format_X 4 address_16bit @ format_X 2 record_type;
          record = fold (\<lambda>byte_val r. r @ format_X 2 byte_val) data record
      in record @ format_X 2 checksum @ [newline])"

definition eof_record :: string where
  "eof_record = '':00000001FF'' @ [newline]"

record hex_state =
  current_extended_addr :: "int option"
  current_address :: "int option"
  current_data :: "int list"
  written :: "string list"

text \<open>Writing the pending data record; \<open>None\<close> stands for the exception Python raises when
  the record address is \<open>None\<close>.\<close>

definition write_pending :: "hex_state \<Rightarrow> hex_state option" where
  "write_pending st =
     (case current_address st of
        None \<Rightarrow> None
      | Some a \<Rightarrow> Some (st\<lparr>written := written st @ [write_hex_record a (current_data st)]\<rparr>))"

text \<open>First block of the loop body: a change of the high 16 address bits flushes the pending
  data and writes an Extended Linear Address record.\<close>

definition switch_extended :: "hex_state \<Rightarrow> int \<Rightarrow> hex_state option" where
  "switch_extended st extended_addr =
     (if Some extended_addr \<noteq> current_extended_addr st
      then (case (if current_data st \<noteq> []
                  then map_option (\<lambda>s. s\<lparr>current_data := []\<rparr>) (write_pending st)
                  else Some st) of
              None \<Rightarrow> None
            | Some s \<Rightarrow>
                Some (s\<lparr>written := written s @ [write_extended_address_record extended_addr],
                        current_extended_addr := Some extended_addr,
                        current_address := None\<rparr>))
      else Some st)"

text \<open>Second block: the byte \<open>v = memory_image[addr]\<close> starts a record, extends the pending
  one (written out once it holds 16 bytes) or, at a non-consecutive address, replaces it
  after it has been written.\<close>

definition queue_byte :: "hex_state \<Rightarrow> int \<Rightarrow> int \<Rightarrow> hex_state option" where
  "queue_byte s1 addr v =
     (case current_address s1 of
        None \<Rightarrow> Some (s1\<lparr>current_address := Some addr, current_data := [v]\<rparr>)
      | Some ca \<Rightarrow>
          if addr = ca + int (length (current_data s1))
          then (let s2 = s1\<lparr>current_data := current_data s1 @ [v]\<rparr>
                in if length (current_data s2) \<ge> 16
                   then map_option (\<lambda>s. s\<lparr>current_address := None, current_data := []\<rparr>)
                          (write_pending s2)
                   else Some s2)
          else (case (if current_data s1 \<noteq> [] then write_pending s1 else Some s1) of
                  None \<Rightarrow> None
                | Some s2 \<Rightarrow> Some (s2\<lparr>current_address := Some addr, current_data := [v]\<rparr>)))"

definition hex_step :: "(int \<times> int) list \<Rightarrow> hex_state \<Rightarrow> int \<Rightarrow> hex_state option" where
  "hex_step memory_image st addr =
     (let extended_addr = (drop_bit 16 addr) AND 0xFFFF
      in case switch_extended st extended_addr of
           None \<Rightarrow> None
         | Some s1 \<Rightarrow>
             (case map_of memory_image addr of
                None \<Rightarrow> None
              | Some v \<Rightarrow> queue_byte s1 addr v))"

fun hex_loop :: "(int \<times> int) list \<Rightarrow> hex_state \<Rightarrow> int list \<Rightarrow> hex_state option" where
  "hex_loop memory_image st [] = Some st"
| "hex_loop memory_image st (addr # addrs) =
     (case hex_step memory_image st addr of
        None \<Rightarrow> None
      | Some st' \<Rightarrow> hex_loop memory_image st' addrs)"

text \<open>The lines written to the file, or \<open>None\<close> when an exception is caught and the
  generator returns failure.\<close>

definition generate_intel_hex_custom :: "(int \<times> int) list \<Rightarrow> string list option" where
  "generate_intel_hex_custom memory_image =
     (let addresses = sort (map fst memory_image)
      in if addresses = [] then Some [eof_record]
         else (case hex_loop memory_image
                      \<lparr>current_extended_addr = None, current_address = None,
                       current_data = [], written = []\<rparr> addresses of
                 None \<Rightarrow> None
               | Some st \<Rightarrow>
                   (case (if current_data st \<noteq> [] then write_pending st else Some st) of
                      None \<Rightarrow> None
                    | Some st' \<Rightarrow> Some (written st' @ [eof_record]))))"

text \<open>Reading a record back: the bytes encoded by the hexadecimal digit pairs between the
  start code and the line end.\<close>

definition hex_val :: "char \<Rightarrow> int option" where
  "hex_val c = map_of (zip hex_chars (map int [0 ..< 16])) c"

fun decode_pairs :: "string \<Rightarrow> int list option" where
  "decode_pairs [] = Some []"
| "decode_pairs [c] = None"
| "decode_pairs (c1 # c2 # rest) =
     (case (hex_val c1, hex_val c2, decode_pairs rest) of
        (Some a, Some b, Some r) \<Rightarrow> Some ((16 * a + b) # r)
      | _ \<Rightarrow> None)"

definition record_bytes :: "string \<Rightarrow> int list option" where
  "record_bytes line =
     (case line of
        [] \<Rightarrow> None
      | c # rest \<Rightarrow>
          if c = CHR '':'' \<and> rest \<noteq> [] \<and> last rest = newline then decode_pairs (butlast rest)
          else None)"

definition valid_record :: "string \<Rightarrow> bool" where
  "valid_record line =
     (case record_bytes line of
        None \<Rightarrow> False
      | Some bs \<Rightarrow>
          5 \<le> length bs \<and> int (length bs) = 5 + hd bs \<and>
          sum_list bs mod 256 = 0 \<and>
          last bs = (- sum_list (butlast bs)) mod 256 \<and>
          (bs ! 3 = 0 \<and> 1 \<le> hd bs \<and> hd bs \<le> 16 \<or> bs ! 3 = 4 \<and> hd bs = 2 \<or> line = eof_record))"

definition hex_inv :: "hex_state \<Rightarrow> bool" where
  "hex_inv st =
     ((\<forall>l \<in> set (written st). valid_record l) \<and>
      (\<forall>b \<in> set (current_data st). 0 \<le> b \<and> b \<le> 255) \<and>
      length (current_data st) < 16 \<and>
      (current_data st \<noteq> [] \<longrightarrow> current_address st \<noteq> None))"

section \<open>Linker: memory image\<close>

definition data_size_names :: "string list" where
  "data_size_names = [''DB'', ''DW'', ''DD'', ''DQ'', ''DT'', ''DO'', ''DY'', ''DZ'']"

definition reserve_size_names :: "string list" where
  "reserve_size_names = [''RESB'', ''RESW'', ''RESD'', ''RESQ'', ''REST'', ''RESO'', ''RESY'', ''RESZ'']"

text \<open>\<open>parts[0].upper()\<close> of \<open>source_text.strip().split(maxsplit=1)\<close>, or the empty string.\<close>

definition directive_of :: "string \<Rightarrow> string" where
  "directive_of source_text = py_upper (takeWhile (\<lambda>c. \<not> is_space c) (py_strip source_text))"

definition is_data_directive_record :: "string \<Rightarrow> bool" where
  "is_data_directive_record source_text =
     (directive_of source_text \<in> set data_size_names \<or>
      directive_of source_text \<in> set reserve_size_names \<or>
      directive_of source_text \<in> set [''TIMES'', ''INCBIN''])"

text \<open>
  Re-synthesis of a data directive (sizes, \<open>TIMES\<close> expansion, \<open>INCBIN\<close> file reads) is a
  parameter of the model.  It either returns the memory image with the directive's bytes
  written, raises (the image is untouched and the record falls back to the opcode path) or
  makes the generator return failure (oversized reservation).
\<close>

datatype data_result = Data_written "(int \<times> int) list" | Data_exception | Data_abort

type_synonym data_handler = "string \<Rightarrow> string \<Rightarrow> int \<Rightarrow> (int \<times> int) list \<Rightarrow> data_result"

text \<open>A linked record: \<open>(address, opcode, operand, source_text, source_file, size)\<close>.\<close>

type_synonym linked_record = "int \<times> int \<times> int option \<times> string \<times> string \<times> int"

definition store_opcode :: "bool \<Rightarrow> (int \<times> int) list \<Rightarrow> int \<Rightarrow> int \<Rightarrow> (int \<times> int) list" where
  "store_opcode is_little_endian memory_image address opcode =
     (if is_little_endian then
        AList.update (address + 3) ((drop_bit 24 opcode) AND 0xFF)
          (AList.update (address + 2) ((drop_bit 16 opcode) AND 0xFF)
            (AList.update (address + 1) ((drop_bit 8 opcode) AND 0xFF)
              (AList.update address (opcode AND 0xFF) memory_image)))
      else
        AList.update (address + 3) (opcode AND 0xFF)
          (AList.update (address + 2) ((drop_bit 8 opcode) AND 0xFF)
            (AList.update (address + 1) ((drop_bit 16 opcode) AND 0xFF)
              (AList.update address ((drop_bit 24 opcode) AND 0xFF) memory_image))))"

definition emit_record ::
  "bool \<Rightarrow> data_handler \<Rightarrow> (int \<times> int) list \<Rightarrow> linked_record \<Rightarrow> (int \<times> int) list option"
where
  "emit_record is_little_endian handler memory_image r =
     (case r of (address, opcode, operand, source_text, source_file, sz) \<Rightarrow>
        if is_data_directive_record source_text then
          (case handler source_text source_file address memory_image of
             Data_written m \<Rightarrow> Some m
           | Data_abort \<Rightarrow> None
           | Data_exception \<Rightarrow> Some (store_opcode is_little_endian memory_image address opcode))
        else Some (store_opcode is_little_endian memory_image address opcode))"

fun emit_records ::
  "bool \<Rightarrow> data_handler \<Rightarrow> (int \<times> int) list \<Rightarrow> linked_record list \<Rightarrow> (int \<times> int) list option"
where
  "emit_records le handler memory_image [] = Some memory_image"
| "emit_records le handler memory_image (r # rs) =
     (case emit_record le handler memory_image r of
        None \<Rightarrow> None
      | Some m \<Rightarrow> emit_records le handler m rs)"

text \<open>
  \<open>_check_address_conflicts\<close>.  A record of size 0 is given the size 1, or 2 or 3 when it has
  an operand; every byte address of a record that an earlier byte already occupies is a
  conflict, and the check passes when there is none.
\<close>

definition effective_size :: "int option \<Rightarrow> int \<Rightarrow> int" where
  "effective_size operand sz =
     (if sz = 0 then (case operand of None \<Rightarrow> 1 | Some v \<Rightarrow> if v \<le> 0xFF then 2 else 3) else sz)"

definition record_addresses :: "linked_record \<Rightarrow> int list" where
  "record_addresses r =
     (case r of (address, opcode, operand, source_text, source_file, sz) \<Rightarrow>
        map (\<lambda>offset. address + int offset) [0..<nat (effective_size operand sz)])"

fun find_conflicts :: "int list \<Rightarrow> int list \<Rightarrow> int list" where
  "find_conflicts occupied_addresses [] = []"
| "find_conflicts occupied_addresses (addr # rest) =
     (if addr \<in> set occupied_addresses then addr # find_conflicts occupied_addresses rest
      else find_conflicts (addr # occupied_addresses) rest)"

definition check_address_conflicts :: "linked_record list \<Rightarrow> bool" where
  "check_address_conflicts linked_records =
     (find_conflicts [] (concat (map record_addresses linked_records)) = [])"

text \<open>
  The image part of \<open>_generate_output\<close>: the records are sorted by address; without records
  an empty output is written and no image is built; an address conflict or an aborting
  data directive makes the generator return failure.
\<close>

datatype image_result = No_instructions | Generation_failed | Memory_image "(int \<times> int) list"

definition memory_image_of :: "bool \<Rightarrow> data_handler \<Rightarrow> linked_record list \<Rightarrow> image_result" where
  "memory_image_of le handler linked_records =
     (let all_instructions = sort_key fst linked_records in
      if all_instructions = [] then No_instructions
      else if \<not> check_address_conflicts all_instructions then Generation_failed
      else (case emit_records le handler [] all_instructions of
              None \<Rightarrow> Generation_failed
            | Some memory_image \<Rightarrow> Memory_image memory_image))"

text \<open>Binary serialisation: \<open>None\<close> stands for the exception of \<open>min\<close> on an empty image.\<close>

definition binary_output :: "(int \<times> int) list \<Rightarrow> int list option" where
  "binary_output memory_image =
     (case map fst memory_image of
        [] \<Rightarrow> None
      | k # ks \<Rightarrow>
          (let min_addr = fold min ks k;
               max_addr = fold max ks k;
               binary_data = replicate (nat (max_addr - min_addr + 1)) 0
           in Some (fold (\<lambda>(addr, byte_val) d. d[nat (addr - min_addr) := byte_val])
                      memory_image binary_data)))"

section \<open>Python's \<open>int(text, base)\<close> on ASCII text\<close>

text \<open>
  Errors are values.  \<open>ValueError\<close> is the only exception the numeric parser and the data
  directive handler catch.
\<close>

datatype py_error = ValueError | KeyError | FileNotFoundError

definition digit_chars :: string where
  "digit_chars = ''0123456789abcdefghijklmnopqrstuvwxyz''"

text \<open>The value of a character as a digit of the given base, if it is one.\<close>

definition digit_of :: "nat \<Rightarrow> char \<Rightarrow> nat option" where
  "digit_of base c =
     (case map_of (zip digit_chars [0 ..< 36]) (lower_char c) of
        Some v \<Rightarrow> if v < base then Some v else None
      | None \<Rightarrow> None)"

text \<open>Digits after the first one; a single underscore may separate two digits.\<close>

fun digits_value :: "nat \<Rightarrow> int \<Rightarrow> string \<Rightarrow> int option" where
  "digits_value base acc [] = Some acc"
| "digits_value base acc [c] =
     (case digit_of base c of None \<Rightarrow> None | Some v \<Rightarrow> Some (acc * int base + int v))"
| "digits_value base acc (c # d # ds) =
     (if c = CHR ''_''
      then (case digit_of base d of
              None \<Rightarrow> None
            | Some v \<Rightarrow> digits_value base (acc * int base + int v) ds)
      else (case digit_of base c of
              None \<Rightarrow> None
            | Some v \<Rightarrow> digits_value base (acc * int base + int v) (d # ds)))"

definition parse_unsigned :: "nat \<Rightarrow> string \<Rightarrow> int option" where
  "parse_unsigned base s =
     (case s of
        [] \<Rightarrow> None
      | c # cs \<Rightarrow>
          (case digit_of base c of
             None \<Rightarrow> None
           | Some v \<Rightarrow> digits_value base (int v) cs))"

text \<open>The optional base prefix (\<open>0x\<close>, \<open>0o\<close>, \<open>0b\<close>, either case) that \<open>int\<close> accepts for
  the bases 16, 8 and 2, followed by an optional underscore.\<close>

definition strip_base_prefix :: "nat \<Rightarrow> string \<Rightarrow> string" where
  "strip_base_prefix base s =
     (let p = (if base = 16 then ''0x'' else if base = 8 then ''0o'' else if base = 2 then ''0b'' else [])
      in if p \<noteq> [] \<and> startswith (py_lower s) p
         then (let r = drop 2 s in if startswith r ''_'' then drop 1 r else r)
         else s)"

definition py_int :: "string \<Rightarrow> nat \<Rightarrow> py_error + int" where
  "py_int text base =
     (let t = py_strip text;
          neg = startswith t ''-'';
          body = (if startswith t ''-'' \<or> startswith t ''+'' then drop 1 t else t)
      in case parse_unsigned base (strip_base_prefix base body) of
           None \<Rightarrow> Inl ValueError
         | Some n \<Rightarrow> Inr (if neg then - n else n))"

section \<open>Numeric parser (\<open>numeric_parser.py\<close>)\<close>

text \<open>\<open>hex_str[0].lower() in 'abcdef'\<close>.\<close>

definition first_is_hex_letter :: "string \<Rightarrow> bool" where
  "first_is_hex_letter s = (case s of [] \<Rightarrow> False | c # _ \<Rightarrow> lower_char c \<in> set ''abcdef'')"

text \<open>\<open>len(value_str) > 2 and value_str[0] == '0' and value_str[1].lower() == k\<close>.\<close>

definition has_zero_prefix :: "string \<Rightarrow> char \<Rightarrow> bool" where
  "has_zero_prefix s k =
     (length s > 2 \<and> (case s of c0 # c1 # _ \<Rightarrow> c0 = CHR ''0'' \<and> lower_char c1 = k | _ \<Rightarrow> False))"

text \<open>\<open>NumericParser.parse\<close>: every failure of \<open>int\<close> is re-raised as \<open>ValueError\<close>.\<close>

definition parse :: "string \<Rightarrow> py_error + int" where
  "parse value_str0 =
     (let value_str = py_strip value_str0 in
      if value_str = [] then Inl ValueError
      else
        (let value_str = filter (\<lambda>c. c \<noteq> CHR ''_'') value_str in
         if startswith (py_lower value_str) ''0x'' then py_int value_str 16
         else if has_zero_prefix value_str CHR ''h'' then py_int (drop 2 value_str) 16
         else if endswith (py_lower value_str) ''h'' then
           (let hex_str = butlast value_str in
            if first_is_hex_letter hex_str \<and> hd hex_str \<noteq> CHR ''0'' then Inl ValueError
            else py_int hex_str 16)
         else if startswith value_str ''$'' then
           (let hex_str = drop 1 value_str in
            if hex_str = [] then Inl ValueError
            else if first_is_hex_letter hex_str then Inl ValueError
            else py_int hex_str 16)
         else if startswith (py_lower value_str) ''0b'' then py_int (drop 2 value_str) 2
         else if has_zero_prefix value_str CHR ''y'' then py_int (drop 2 value_str) 2
         else if endswith (py_lower value_str) ''b'' then py_int (butlast value_str) 2
         else if endswith (py_lower value_str) ''y'' then py_int (butlast value_str) 2
         else if startswith (py_lower value_str) ''0o'' then py_int (drop 2 value_str) 8
         else if has_zero_prefix value_str CHR ''q'' then py_int (drop 2 value_str) 8
         else if endswith (py_lower value_str) ''q'' then py_int (butlast value_str) 8
         else if endswith (py_lower value_str) ''o'' then py_int (butlast value_str) 8
         else if has_zero_prefix value_str CHR ''d'' then py_int (drop 2 value_str) 10
         else if endswith (py_lower value_str) ''d'' then py_int (butlast value_str) 10
         else py_int value_str 10))"

definition parse_with_sign :: "string \<Rightarrow> py_error + int" where
  "parse_with_sign value_str0 =
     (let value_str = py_strip value_str0 in
      if startswith value_str ''+'' then parse (drop 1 value_str)
      else if startswith value_str ''-'' then
        (case parse (drop 1 value_str) of Inl e \<Rightarrow> Inl e | Inr v \<Rightarrow> Inr (- v))
      else parse value_str)"

definition parse_numeric :: "string \<Rightarrow> py_error + int" where
  "parse_numeric value_str = parse_with_sign value_str"

section \<open>Rendering an integer in a supported format\<close>

text \<open>
  The formats the parser supports, as the specification lists them.  Rendering follows the
  specification's words: the digits of the magnitude in the format's base (no leading
  zeros), with the format's prefix or suffix, the leading zero the trailing-\<open>h\<close> form
  requires before a letter digit, and a leading minus sign for a negative number.
\<close>

datatype num_format =
    Hex_0x | Hex_0X | Hex_0h | Hex_suffix_h | Hex_dollar
  | Bin_0b | Bin_0y | Bin_suffix_b | Bin_suffix_y
  | Oct_0o | Oct_0q | Oct_suffix_o | Oct_suffix_q
  | Dec_0d | Dec_suffix_d | Dec_plain

function to_digits :: "nat \<Rightarrow> nat \<Rightarrow> string" where
  "to_digits base n =
     (if n < base \<or> base < 2 then [digit_chars ! n]
      else to_digits base (n div base) @ [digit_chars ! (n mod base)])"
  by pat_completeness auto
termination
  by (relation "measure (\<lambda>(base, n). n)") auto

declare to_digits.simps [simp del]

definition render_unsigned :: "num_format \<Rightarrow> nat \<Rightarrow> string" where
  "render_unsigned fmt n =
     (case fmt of
        Hex_0x \<Rightarrow> ''0x'' @ to_digits 16 n
      | Hex_0X \<Rightarrow> ''0X'' @ to_digits 16 n
      | Hex_0h \<Rightarrow> ''0h'' @ to_digits 16 n
      | Hex_suffix_h \<Rightarrow>
          (let d = to_digits 16 n
           in (if first_is_hex_letter d then ''0'' @ d else d) @ ''h'')
      | Hex_dollar \<Rightarrow> ''$0'' @ to_digits 16 n
      | Bin_0b \<Rightarrow> ''0b'' @ to_digits 2 n
      | Bin_0y \<Rightarrow> ''0y'' @ to_digits 2 n
      | Bin_suffix_b \<Rightarrow> to_digits 2 n @ ''b''
      | Bin_suffix_y \<Rightarrow> to_digits 2 n @ ''y''
      | Oct_0o \<Rightarrow> ''0o'' @ to_digits 8 n
      | Oct_0q \<Rightarrow> ''0q'' @ to_digits 8 n
      | Oct_suffix_o \<Rightarrow> to_digits 8 n @ ''o''
      | Oct_suffix_q \<Rightarrow> to_digits 8 n @ ''q''
      | Dec_0d \<Rightarrow> ''0d'' @ to_digits 10 n
      | Dec_suffix_d \<Rightarrow> to_digits 10 n @ ''d''
      | Dec_plain \<Rightarrow> to_digits 10 n)"

definition render :: "num_format \<Rightarrow> int \<Rightarrow> string" where
  "render fmt n = (if n < 0 then ''-'' @ render_unsigned fmt (nat (- n)) else render_unsigned fmt (nat n))"

definition all_formats :: "num_format list" where
  "all_formats = [Hex_0x, Hex_0X, Hex_0h, Hex_suffix_h, Hex_dollar, Bin_0b, Bin_0y, Bin_suffix_b,
                  Bin_suffix_y, Oct_0o, Oct_0q, Oct_suffix_o, Oct_suffix_q, Dec_0d, Dec_suffix_d,
                  Dec_plain]"

section \<open>Data directives (\<open>data_directives.py\<close>)\<close>

text \<open>
  A parsed value is an integer, a float or a byte string.  Floats are kept abstract: the
  type \<open>'f\<close> and the two functions \<open>py_float\<close> (Python's \<open>float(text)\<close>, \<open>None\<close> when it raises
  \<open>ValueError\<close>) and \<open>pack_float\<close> (\<open>struct.pack\<close>) are parameters.
\<close>

datatype 'f py_value = VInt int | VFloat 'f | VBytes string

definition double_quote :: char where
  "double_quote = CHR 0x22"

definition single_quote :: char where
  "single_quote = CHR 0x27"

text \<open>\<open>'.' in value_str or ('e' in value_str.lower() and 'h' not in value_str.lower())\<close>.\<close>

definition looks_like_float :: "string \<Rightarrow> bool" where
  "looks_like_float value_str =
     (CHR ''.'' \<in> set value_str \<or>
      (CHR ''e'' \<in> set (py_lower value_str) \<and> CHR ''h'' \<notin> set (py_lower value_str)))"

text \<open>
  \<open>DataDirective.parse_value\<close>.  \<open>equ_constants\<close> is the EQU table (\<open>self.constants\<close>), \<open>label_table\<close> (\<open>self.labels\<close>) maps a label to
  its address.  The final \<open>try\<close> catches \<open>ValueError\<close> only; any other exception of the
  numeric parser would propagate.
\<close>

definition parse_value ::
  "(string \<Rightarrow> 'f option) \<Rightarrow> (string \<rightharpoonup> int) \<Rightarrow> (string \<rightharpoonup> int) \<Rightarrow> string \<Rightarrow> py_error + 'f py_value"
where
  "parse_value py_float equ_constants label_table value_str0 =
     (let value_str = py_strip value_str0 in
      if startswith value_str [double_quote] \<and> endswith value_str [double_quote]
      then Inr (VBytes (butlast (drop 1 value_str)))
      else if startswith value_str [single_quote] \<and> endswith value_str [single_quote]
      then (let char_str = butlast (drop 1 value_str)
            in if length char_str = 1 then Inr (VInt (of_char (hd char_str)))
               else Inr (VBytes char_str))
      else
        (case (if looks_like_float value_str then py_float value_str else None) of
           Some f \<Rightarrow> Inr (VFloat f)
         | None \<Rightarrow>
             (case equ_constants value_str of
                Some c \<Rightarrow> Inr (VInt c)
              | None \<Rightarrow>
                  (case label_table value_str of
                     Some a \<Rightarrow> Inr (VInt a)
                   | None \<Rightarrow>
                       (case parse_numeric value_str of
                          Inr n \<Rightarrow> Inr (VInt n)
                        | Inl ValueError \<Rightarrow> Inr (VInt 0)
                        | Inl e \<Rightarrow> Inl e)))))"

definition data_sizes :: "(string \<times> nat) list" where
  "data_sizes = [(''DB'', 1), (''DW'', 2), (''DD'', 4), (''DQ'', 8), (''DT'', 10),
                 (''DO'', 16), (''DY'', 32), (''DZ'', 64)]"

text \<open>\<open>value.to_bytes(size, order, signed=(value < 0))\<close>; \<open>None\<close> is \<open>OverflowError\<close>.\<close>

definition int_to_bytes :: "nat \<Rightarrow> bool \<Rightarrow> int \<Rightarrow> int list option" where
  "int_to_bytes sz little v =
     (if (0 \<le> v \<and> v < 256 ^ sz) \<or> (v < 0 \<and> - (256 ^ sz div 2) \<le> v)
      then (let le = map (\<lambda>i. (v div 256 ^ i) mod 256) [0 ..< sz]
            in Some (if little then le else rev le))
      else None)"

definition encode_value ::
  "(nat \<Rightarrow> bool \<Rightarrow> 'f \<Rightarrow> int list) \<Rightarrow> bool \<Rightarrow> nat \<Rightarrow> 'f py_value \<Rightarrow> py_error + int list"
where
  "encode_value pack_float little sz v =
     (case v of
        VBytes bs \<Rightarrow> Inr (map of_char bs)
      | VFloat f \<Rightarrow> if sz = 4 \<or> sz = 8 then Inr (pack_float sz little f) else Inl ValueError
      | VInt i \<Rightarrow> (case int_to_bytes sz little i of None \<Rightarrow> Inl ValueError | Some bs \<Rightarrow> Inr bs))"

fun encode_values ::
  "(nat \<Rightarrow> bool \<Rightarrow> 'f \<Rightarrow> int list) \<Rightarrow> bool \<Rightarrow> nat \<Rightarrow> int list \<Rightarrow> 'f py_value list \<Rightarrow> py_error + int list"
where
  "encode_values pack_float little sz result [] = Inr result"
| "encode_values pack_float little sz result (v # vs) =
     (case encode_value pack_float little sz v of
        Inl e \<Rightarrow> Inl e
      | Inr bs \<Rightarrow> encode_values pack_float little sz (result @ bs) vs)"

text \<open>\<open>DataDirective.encode_data\<close>; a directive that is no key of \<open>DATA_SIZES\<close> raises
  \<open>KeyError\<close>.\<close>

definition encode_data ::
  "(nat \<Rightarrow> bool \<Rightarrow> 'f \<Rightarrow> int list) \<Rightarrow> bool \<Rightarrow> string \<Rightarrow> 'f py_value list \<Rightarrow> py_error + int list"
where
  "encode_data pack_float little directive vals =
     (case map_of data_sizes (py_upper directive) of
        None \<Rightarrow> Inl KeyError
      | Some sz \<Rightarrow> encode_values pack_float little sz [] vals)"

text \<open>
  The operands the claim calls unrecognized: after stripping, not enclosed in double or
  single quotes, not accepted as a float, no EQU constant, no label and rejected by the
  numeric parser.
\<close>

definition unrecognized_operand ::
  "(string \<Rightarrow> 'f option) \<Rightarrow> (string \<rightharpoonup> int) \<Rightarrow> (string \<rightharpoonup> int) \<Rightarrow> string \<Rightarrow> bool"
where
  "unrecognized_operand py_float equ_constants label_table value_str0 =
     (let value_str = py_strip value_str0 in
      \<not> (startswith value_str [double_quote] \<and> endswith value_str [double_quote]) \<and>
      \<not> (startswith value_str [single_quote] \<and> endswith value_str [single_quote]) \<and>
      \<not> (looks_like_float value_str \<and> py_float value_str \<noteq> None) \<and>
      equ_constants value_str = None \<and> label_table value_str = None \<and>
      (case parse_numeric value_str of Inl _ \<Rightarrow> True | Inr _ \<Rightarrow> False))"

section \<open>Two-pass assembler (\<open>assembler.py\<close>)\<close>

subsection \<open>More string primitives\<close>

text \<open>\<open>text.split()\<close>: the maximal runs of non-whitespace characters.\<close>

fun split_ws_from :: "string \<Rightarrow> string \<Rightarrow> string list" where
  "split_ws_from cur [] = (if cur = [] then [] else [cur])"
| "split_ws_from cur (c # cs) =
     (if is_space c then (if cur = [] then split_ws_from [] cs else cur # split_ws_from [] cs)
      else split_ws_from (cur @ [c]) cs)"

definition split_ws :: "string \<Rightarrow> string list" where
  "split_ws s = split_ws_from [] s"

text \<open>\<open>text.split(c)[0]\<close> and the second part of \<open>text.split(c, 1)\<close>.\<close>

definition before_char :: "char \<Rightarrow> string \<Rightarrow> string" where
  "before_char c s = takeWhile (\<lambda>x. x \<noteq> c) s"

definition after_char :: "char \<Rightarrow> string \<Rightarrow> string" where
  "after_char c s = drop 1 (dropWhile (\<lambda>x. x \<noteq> c) s)"

text \<open>\<open>text.find(c)\<close>, with \<open>None\<close> for \<open>-1\<close>.\<close>

definition find_char :: "char \<Rightarrow> string \<Rightarrow> nat option" where
  "find_char c s = (if c \<in> set s then Some (length (takeWhile (\<lambda>x. x \<noteq> c) s)) else None)"

definition is_digit :: "char \<Rightarrow> bool" where
  "is_digit c = (c \<in> set ''0123456789'')"

definition is_alpha :: "char \<Rightarrow> bool" where
  "is_alpha c = (c \<in> set lower_letters \<or> c \<in> set upper_letters)"

text \<open>The regular-expression class \<open>\w\<close> on ASCII.\<close>

definition is_word_char :: "char \<Rightarrow> bool" where
  "is_word_char c = (is_alpha c \<or> is_digit c \<or> c = CHR ''_'')"

subsection \<open>State of the assembler\<close>

datatype asm_error_code =
    DUPLICATE_LABEL | EMPTY_LABEL | INVALID_LABEL_NAME | INVALID_ORG | ADDRESS_OUT_OF_RANGE
  | INVALID_ADDRESS | INVALID_EQU | DATA_DIRECTIVE_ERROR | INSTRUCTION_ERROR

record instruction =
  ins_address :: int
  ins_opcode :: int
  ins_operand :: "int option"
  ins_size_bytes :: int
  ins_source_line :: nat
  ins_source_text :: string

text \<open>
  The assembler object: the label table (name, address, defining line), the current
  origin, the source listing (line number, tentative address, text), the emitted
  instructions, the state of the data directive handler (kept abstract, type \<open>'d\<close>) and
  the errors sent to the logger, with their line numbers.
\<close>

record 'd assembler =
  asm_labels :: "(string \<times> int \<times> nat) list"
  asm_current_address :: int
  source_listing :: "(nat \<times> int option \<times> string) list"
  asm_instructions :: "instruction list"
  data_directive :: 'd
  logged_errors :: "(asm_error_code \<times> nat) list"

text \<open>
  The collaborators of the two passes are parameters: \<open>process_equ\<close> (\<open>None\<close> when it raises),
  the data directive size calculator (\<open>None\<close> when it raises), the instruction size
  calculator of pass 1 (\<open>None\<close> for an unknown instruction) and the two encoders of pass 2
  (\<open>None\<close> when encoding fails).
\<close>

record 'd collaborators =
  process_equ :: "'d \<Rightarrow> string \<Rightarrow> 'd option"
  calculate_size :: "'d \<Rightarrow> (string \<times> int \<times> nat) list \<Rightarrow> string \<Rightarrow> int \<Rightarrow> int option"
  calculate_instruction_size :: "string \<Rightarrow> nat \<Rightarrow> int option"
  assemble_data_directive :: "'d \<Rightarrow> (string \<times> int \<times> nat) list \<Rightarrow> string \<Rightarrow> int \<Rightarrow> nat \<Rightarrow> instruction option"
  assemble_instruction :: "(string \<times> int \<times> nat) list \<Rightarrow> string \<Rightarrow> int \<Rightarrow> nat \<Rightarrow> instruction option"

definition default_origin :: int where
  "default_origin = 0x80000000"

definition new_assembler :: "'d \<Rightarrow> 'd assembler" where
  "new_assembler d =
     \<lparr>asm_labels = [], asm_current_address = default_origin, source_listing = [],
      asm_instructions = [], data_directive = d, logged_errors = []\<rparr>"

definition log_error :: "asm_error_code \<Rightarrow> nat \<Rightarrow> 'd assembler \<Rightarrow> 'd assembler" where
  "log_error code line_num st = st\<lparr>logged_errors := logged_errors st @ [(code, line_num)]\<rparr>"

subsection \<open>Line classification\<close>

text \<open>\<open>re.match(r'^\s*(\w+)\s+EQU\s+', line_upper)\<close>.\<close>

definition equ_pattern :: "string \<Rightarrow> bool" where
  "equ_pattern line_upper =
     (let s = dropWhile is_space line_upper;
          w = takeWhile is_word_char s;
          r = dropWhile is_word_char s;
          gap = takeWhile is_space r;
          t = dropWhile is_space r
      in w \<noteq> [] \<and> gap \<noteq> [] \<and> startswith t ''EQU'' \<and>
         (case drop 3 t of [] \<Rightarrow> False | c # _ \<Rightarrow> is_space c))"

text \<open>The colon test of both passes: a colon that comes before any semicolon.\<close>

definition has_label :: "string \<Rightarrow> bool" where
  "has_label original_line =
     (case find_char CHR '':'' original_line of
        None \<Rightarrow> False
      | Some colon_pos \<Rightarrow>
          (case find_char CHR '';'' original_line of
             None \<Rightarrow> True
           | Some semicolon_pos \<Rightarrow> colon_pos < semicolon_pos))"

text \<open>\<open>_validate_label_name\<close>: \<open>[a-zA-Z_.][a-zA-Z0-9_.]*\<close> or digits only.  (The table
  \<open>self.opcodes\<close> is empty, so the shadowing warning never fires.)\<close>

definition standard_label :: "string \<Rightarrow> bool" where
  "standard_label name =
     (case name of
        [] \<Rightarrow> False
      | c # cs \<Rightarrow> (is_alpha c \<or> c = CHR ''_'' \<or> c = CHR ''.'') \<and>
                  (\<forall>x \<in> set cs. is_alpha x \<or> is_digit x \<or> x = CHR ''_'' \<or> x = CHR ''.''))"

definition numeric_label :: "string \<Rightarrow> bool" where
  "numeric_label name = (name \<noteq> [] \<and> (\<forall>x \<in> set name. is_digit x))"

definition validate_label_name :: "string \<Rightarrow> asm_error_code option" where
  "validate_label_name label_name =
     (if label_name = [] then Some EMPTY_LABEL
      else if \<not> (standard_label label_name \<or> numeric_label label_name) then Some INVALID_LABEL_NAME
      else None)"

text \<open>\<open>DataDirective.is_data_directive\<close>.\<close>

definition is_data_directive :: "string \<Rightarrow> bool" where
  "is_data_directive line =
     (case split_ws (py_upper (py_strip line)) of
        [] \<Rightarrow> False
      | mnemonic # _ \<Rightarrow>
          mnemonic \<in> set data_size_names \<or> mnemonic \<in> set reserve_size_names \<or>
          mnemonic \<in> set [''INCBIN'', ''EQU'', ''TIMES''])"

subsection \<open>\<open>.ORG\<close>\<close>

text \<open>\<open>_handle_org_directive\<close>: the flag it returns and the assembler afterwards.\<close>

definition handle_org_directive :: "string \<Rightarrow> nat \<Rightarrow> 'd assembler \<Rightarrow> bool \<times> 'd assembler" where
  "handle_org_directive line0 line_num st =
     (let line = (if CHR '';'' \<in> set line0 then py_strip (before_char CHR '';'' line0) else line0);
          parts = split_ws line
      in if length parts \<noteq> 2 then (False, log_error INVALID_ORG line_num st)
         else
           (let p = parts ! 1;
                parsed = (if startswith p ''$'' then py_int (drop 1 p) 16
                          else if startswith p ''0x'' then py_int p 16
                          else py_int p 10)
            in case parsed of
                 Inl ValueError \<Rightarrow> (False, log_error INVALID_ADDRESS line_num st)
               | Inl _ \<Rightarrow> (False, st)
               | Inr a \<Rightarrow>
                   if a < 0 \<or> a > 0xFFFFFFFF then (False, log_error ADDRESS_OUT_OF_RANGE line_num st)
                   else (True, st\<lparr>asm_current_address := a\<rparr>)))"

subsection \<open>Pass 1\<close>

text \<open>
  Size of the instruction or data directive \<open>text\<close> and the listing entry for the line
  (the common tail of the label branch and the plain branch); \<open>Inl\<close> is \<open>return False\<close>.
\<close>

definition first_pass_size ::
  "'d collaborators \<Rightarrow> 'd assembler \<Rightarrow> int \<Rightarrow> nat \<Rightarrow> string \<Rightarrow> string \<Rightarrow>
   'd assembler + ('d assembler \<times> int)"
where
  "first_pass_size env st addr line_num original_line text =
     (if is_data_directive text then
        (case calculate_size env (data_directive st) (asm_labels st) text addr of
           None \<Rightarrow> Inl (log_error DATA_DIRECTIVE_ERROR line_num st)
         | Some inst_size \<Rightarrow>
             Inr (st\<lparr>source_listing := source_listing st @ [(line_num, Some addr, original_line)]\<rparr>,
                  addr + inst_size))
      else
        (case calculate_instruction_size env text line_num of
           None \<Rightarrow> Inl (log_error INSTRUCTION_ERROR line_num st)
         | Some inst_size \<Rightarrow>
             Inr (st\<lparr>source_listing := source_listing st @ [(line_num, Some addr, original_line)]\<rparr>,
                  addr + inst_size)))"

text \<open>The body of the \<open>for\<close> loop of \<open>_first_pass\<close> for one line; \<open>Inl\<close> is \<open>return False\<close>,
  \<open>Inr\<close> carries the assembler and the running address on to the next line.\<close>

definition first_pass_line ::
  "'d collaborators \<Rightarrow> 'd assembler \<Rightarrow> int \<Rightarrow> nat \<Rightarrow> string \<Rightarrow> 'd assembler + ('d assembler \<times> int)"
where
  "first_pass_line env st addr line_num line =
     (let original_line = py_strip line in
      if original_line = [] \<or> startswith original_line '';'' \<or> startswith original_line ''#''
      then Inr (st\<lparr>source_listing := source_listing st @ [(line_num, None, original_line)]\<rparr>, addr)
      else if startswith (py_upper original_line) ''.ORG''
      then (let st1 = st\<lparr>source_listing := source_listing st @ [(line_num, Some addr, original_line)]\<rparr>
            in case handle_org_directive original_line line_num st1 of
                 (False, st2) \<Rightarrow> Inl st2
               | (True, st2) \<Rightarrow> Inr (st2, asm_current_address st2))
      else if equ_pattern (py_upper original_line)
      then (let st1 = st\<lparr>source_listing := source_listing st @ [(line_num, None, original_line)]\<rparr>
            in case process_equ env (data_directive st1) original_line of
                 None \<Rightarrow> Inl (log_error INVALID_EQU line_num st1)
               | Some d \<Rightarrow> Inr (st1\<lparr>data_directive := d\<rparr>, addr))
      else if has_label original_line
      then (let label_name = py_strip (before_char CHR '':'' original_line);
                instruction_part = py_strip (after_char CHR '':'' original_line)
            in case validate_label_name label_name of
                 Some code \<Rightarrow> Inl (log_error code line_num st)
               | None \<Rightarrow>
                   if label_name \<in> fst ` set (asm_labels st)
                   then Inl (log_error DUPLICATE_LABEL line_num st)
                   else
                     (let st1 = st\<lparr>asm_labels := asm_labels st @ [(label_name, addr, line_num)]\<rparr>
                      in if instruction_part \<noteq> [] \<and> \<not> startswith instruction_part '';''
                         then first_pass_size env st1 addr line_num original_line instruction_part
                         else Inr (st1\<lparr>source_listing :=
                                          source_listing st1 @ [(line_num, Some addr, original_line)]\<rparr>,
                                   addr)))
      else first_pass_size env st addr line_num original_line original_line)"

fun first_pass_loop ::
  "'d collaborators \<Rightarrow> 'd assembler \<Rightarrow> int \<Rightarrow> nat \<Rightarrow> string list \<Rightarrow> bool \<times> 'd assembler"
where
  "first_pass_loop env st addr line_num [] = (True, st)"
| "first_pass_loop env st addr line_num (line # rest) =
     (case first_pass_line env st addr line_num line of
        Inl st' \<Rightarrow> (False, st')
      | Inr (st', addr') \<Rightarrow> first_pass_loop env st' addr' (Suc line_num) rest)"

definition first_pass :: "'d collaborators \<Rightarrow> 'd assembler \<Rightarrow> string list \<Rightarrow> bool \<times> 'd assembler" where
  "first_pass env st source_lines = first_pass_loop env st (asm_current_address st) 1 source_lines"

subsection \<open>Pass 2\<close>

text \<open>Appending an assembled record of positive size and advancing the address.\<close>

definition emit :: "'d assembler \<Rightarrow> int \<Rightarrow> instruction \<Rightarrow> 'd assembler \<times> int" where
  "emit st addr i =
     (if ins_size_bytes i > 0
      then (st\<lparr>asm_instructions := asm_instructions st @ [i]\<rparr>, addr + ins_size_bytes i)
      else (st, addr))"

definition second_pass_line ::
  "'d collaborators \<Rightarrow> 'd assembler \<Rightarrow> int \<Rightarrow> nat \<Rightarrow> string \<Rightarrow> 'd assembler + ('d assembler \<times> int)"
where
  "second_pass_line env st addr line_num line =
     (let original_line = py_strip line in
      if original_line = [] \<or> startswith original_line '';'' then Inr (st, addr)
      else if startswith (py_upper original_line) ''.ORG''
      then (let st1 = snd (handle_org_directive original_line line_num st)
            in Inr (st1, asm_current_address st1))
      else if equ_pattern (py_upper original_line) then Inr (st, addr)
      else
        (let instruction_part = py_strip (after_char CHR '':'' original_line);
             skip = (has_label original_line \<and>
                     (instruction_part = [] \<or> startswith instruction_part '';''));
             text = (if has_label original_line then instruction_part else original_line)
         in if skip then Inr (st, addr)
            else if is_data_directive text then
              (case assemble_data_directive env (data_directive st) (asm_labels st) text addr line_num of
                 None \<Rightarrow> Inl st
               | Some i \<Rightarrow> Inr (emit st addr i))
            else
              (case assemble_instruction env (asm_labels st) text addr line_num of
                 None \<Rightarrow> Inl st
               | Some i \<Rightarrow> Inr (emit st addr i))))"

fun second_pass_loop ::
  "'d collaborators \<Rightarrow> 'd assembler \<Rightarrow> int \<Rightarrow> nat \<Rightarrow> string list \<Rightarrow> bool \<times> 'd assembler"
where
  "second_pass_loop env st addr line_num [] = (True, st)"
| "second_pass_loop env st addr line_num (line # rest) =
     (case second_pass_line env st addr line_num line of
        Inl st' \<Rightarrow> (False, st')
      | Inr (st', addr') \<Rightarrow> second_pass_loop env st' addr' (Suc line_num) rest)"

definition second_pass :: "'d collaborators \<Rightarrow> 'd assembler \<Rightarrow> string list \<Rightarrow> bool \<times> 'd assembler" where
  "second_pass env st source_lines = second_pass_loop env st (asm_current_address st) 1 source_lines"

text \<open>The two passes of \<open>assemble_file\<close>.\<close>

definition two_passes :: "'d collaborators \<Rightarrow> 'd assembler \<Rightarrow> string list \<Rightarrow> bool \<times> 'd assembler" where
  "two_passes env st source_lines =
     (case first_pass env st source_lines of
        (False, st1) \<Rightarrow> (False, st1)
      | (True, st1) \<Rightarrow> second_pass env st1 source_lines)"

text \<open>An instruction table in which every instruction line is a 32-bit \<open>NOP\<close>, and a data
  handler without state.\<close>

definition nop_collaborators :: "unit collaborators" where
  "nop_collaborators =
     \<lparr>process_equ = (\<lambda>d line. Some d),
      calculate_size = (\<lambda>d labels line addr. Some 1),
      calculate_instruction_size = (\<lambda>line line_num. Some 4),
      assemble_data_directive = (\<lambda>d labels line addr line_num.
         Some \<lparr>ins_address = addr, ins_opcode = 0, ins_operand = None, ins_size_bytes = 1,
               ins_source_line = line_num, ins_source_text = line\<rparr>),
      assemble_instruction = (\<lambda>labels line addr line_num.
         Some \<lparr>ins_address = addr, ins_opcode = 0x0D, ins_operand = None, ins_size_bytes = 4,
               ins_source_line = line_num, ins_source_text = line\<rparr>)\<rparr>"

text \<open>The tentative address pass 1 lists for a line, and the address pass 2 gives the
  record emitted for that line.\<close>

definition tentative_address :: "'d assembler \<Rightarrow> nat \<Rightarrow> int option" where
  "tentative_address st line_num =
     (case filter (\<lambda>(n, a, t). n = line_num) (source_listing st) of
        [] \<Rightarrow> None
      | (n, a, t) # _ \<Rightarrow> a)"

definition final_address :: "'d assembler \<Rightarrow> nat \<Rightarrow> int option" where
  "final_address st line_num =
     (case filter (\<lambda>i. ins_source_line i = line_num) (asm_instructions st) of
        [] \<Rightarrow> None
      | i # _ \<Rightarrow> Some (ins_address i))"

text \<open>The test by which pass 1 takes a source line for the definition of label \<open>name\<close>.\<close>

definition defines_label :: "string \<Rightarrow> string \<Rightarrow> bool" where
  "defines_label line name =
     (let original_line = py_strip line in
      original_line \<noteq> [] \<and> \<not> startswith original_line '';'' \<and> \<not> startswith original_line ''#'' \<and>
      \<not> startswith (py_upper original_line) ''.ORG'' \<and>
      \<not> equ_pattern (py_upper original_line) \<and>
      has_label original_line \<and>
      name = py_strip (before_char CHR '':'' original_line) \<and>
      validate_label_name name = None)"

text \<open>A source line that both passes treat as an \<open>.ORG\<close> directive.\<close>

definition is_org_line :: "string \<Rightarrow> bool" where
  "is_org_line line =
     (let original_line = py_strip line in
      original_line \<noteq> [] \<and> \<not> startswith original_line '';'' \<and> \<not> startswith original_line ''#'' \<and>
      startswith (py_upper original_line) ''.ORG'')"

section \<open>Instruction rows (\<open>instruction_loader.py\<close>) and the split-operand encoder (\<open>instruction_encoder.py\<close>)\<close>

subsection \<open>Instruction definitions\<close>

text \<open>
  \<open>InstructionDefinition\<close>.  The fields \<open>opcode\<close>, \<open>instruction\<close> and \<open>syntax\<close> carry the prefix
  \<open>d_\<close>; positions and lengths are Python integers.
\<close>

record instruction_definition =
  d_opcode :: string
  opcode_size :: int
  d_instruction :: string
  long_name :: string
  d_syntax :: string
  reference :: string
  operand_count :: int
  op1_pos :: int
  op1_len :: int
  op2_pos :: int
  op2_len :: int
  op3_pos :: int
  op3_len :: int
  op4_pos :: int
  op4_len :: int
  op5_pos :: int
  op5_len :: int

text \<open>\<open>get_operand_info\<close>: position and length of the 1-based slot, \<open>(0, 0)\<close> for any other number.\<close>

definition get_operand_info :: "instruction_definition \<Rightarrow> nat \<Rightarrow> int \<times> int" where
  "get_operand_info d operand_num =
     (if operand_num = 1 then (op1_pos d, op1_len d)
      else if operand_num = 2 then (op2_pos d, op2_len d)
      else if operand_num = 3 then (op3_pos d, op3_len d)
      else if operand_num = 4 then (op4_pos d, op4_len d)
      else if operand_num = 5 then (op5_pos d, op5_len d)
      else (0, 0))"

subsection \<open>Regular expressions of the syntax column\<close>

text \<open>
  A match of \<open>\{([^\}]+)\}\<close> at the head of the text: an opening brace, a non-empty run of
  characters other than the closing brace, and the closing brace.  The result is group 1.
\<close>

definition not_close :: "char \<Rightarrow> bool" where
  "not_close c = (c \<noteq> CHR ''}'')"

fun brace_block :: "string \<Rightarrow> string option" where
  "brace_block [] = None"
| "brace_block (c # cs) =
     (if c = CHR ''{'' \<and> takeWhile not_close cs \<noteq> [] \<and> dropWhile not_close cs \<noteq> []
      then Some (takeWhile not_close cs) else None)"

text \<open>\<open>re.search(r'\{([^\}]+)\}', text)\<close>: start index and group 1 of the leftmost match.\<close>

fun search_brace_from :: "nat \<Rightarrow> string \<Rightarrow> (nat \<times> string) option" where
  "search_brace_from i [] = None"
| "search_brace_from i (c # cs) =
     (case brace_block (c # cs) of
        Some content \<Rightarrow> Some (i, content)
      | None \<Rightarrow> search_brace_from (Suc i) cs)"

definition search_brace :: "string \<Rightarrow> (nat \<times> string) option" where
  "search_brace s = search_brace_from 0 s"

text \<open>\<open>re.sub(r'\{[^\}]+\}', '', text)\<close>.\<close>

function remove_braces :: "string \<Rightarrow> string" where
  "remove_braces s =
     (if s = [] then []
      else (case brace_block s of
              Some content \<Rightarrow> remove_braces (drop (length content + 2) s)
            | None \<Rightarrow> hd s # remove_braces (tl s)))"
  by pat_completeness auto
termination
  by (relation "measure length") auto

declare remove_braces.simps [simp del]

text \<open>
  A match of \<open>\[(\d+):(\d+)\]\<close> at the head of the text; the result is the two groups.  The
  digit runs are greedy and what follows a run is not a digit, so no backtracking can help.
\<close>

definition match_bitfield :: "string \<Rightarrow> (string \<times> string) option" where
  "match_bitfield s =
     (case s of
        [] \<Rightarrow> None
      | c # r \<Rightarrow>
          if c \<noteq> CHR ''['' \<or> takeWhile is_digit r = [] then None
          else (case dropWhile is_digit r of
                  [] \<Rightarrow> None
                | c1 # r2 \<Rightarrow>
                    if c1 \<noteq> CHR '':'' \<or> takeWhile is_digit r2 = [] then None
                    else (case dropWhile is_digit r2 of
                            [] \<Rightarrow> None
                          | c3 # r4 \<Rightarrow>
                              if c3 = CHR '']''
                              then Some (takeWhile is_digit r, takeWhile is_digit r2)
                              else None)))"

text \<open>\<open>re.findall(r'\[(\d+):(\d+)\]', content)\<close>: the non-overlapping matches from left to right.\<close>

function find_bitfields :: "string \<Rightarrow> (string \<times> string) list" where
  "find_bitfields s =
     (if s = [] then []
      else (case match_bitfield s of
              Some (high, low) \<Rightarrow> (high, low) # find_bitfields (drop (length high + length low + 3) s)
            | None \<Rightarrow> find_bitfields (tl s)))"
  by pat_completeness auto
termination
  by (relation "measure length") auto

declare find_bitfields.simps [simp del]

text \<open>\<open>int(text)\<close> on a run of decimal digits.\<close>

definition int_of_digits :: "string \<Rightarrow> int" where
  "int_of_digits s = foldl (\<lambda>acc c. 10 * acc + (of_char c - 48)) 0 s"

text \<open>\<open>text.split(None, 1)\<close>.\<close>

definition split_first_word :: "string \<Rightarrow> string list" where
  "split_first_word s =
     (let t = dropWhile is_space s;
          w = takeWhile (\<lambda>c. \<not> is_space c) t;
          r = dropWhile is_space (dropWhile (\<lambda>c. \<not> is_space c) t)
      in if w = [] then [] else if r = [] then [w] else [w, r])"

text \<open>\<open>text.split(c)\<close> for a single character \<open>c\<close>.\<close>

fun split_on_from :: "string \<Rightarrow> char \<Rightarrow> string \<Rightarrow> string list" where
  "split_on_from cur c [] = [cur]"
| "split_on_from cur c (x # xs) =
     (if x = c then cur # split_on_from [] c xs else split_on_from (cur @ [x]) c xs)"

definition split_on :: "char \<Rightarrow> string \<Rightarrow> string list" where
  "split_on c s = split_on_from [] c s"

text \<open>\<open>sub in text\<close>.\<close>

fun contains :: "string \<Rightarrow> string \<Rightarrow> bool" where
  "contains sub [] = (sub = [])"
| "contains sub (c # cs) = (startswith (c # cs) sub \<or> contains sub cs)"

subsection \<open>Syntax of a row\<close>

text \<open>\<open>_extract_operand_patterns\<close>.\<close>

definition extract_operand_patterns :: "string \<Rightarrow> string list" where
  "extract_operand_patterns syntax_text =
     (let parts = split_first_word syntax_text
      in if length parts < 2 then []
         else map py_strip (split_on (CHR '','') (remove_braces (py_strip (parts ! 1)))))"

text \<open>
  \<open>_parse_split_operand_syntax\<close>: the 1-based position of the operand that carries the brace
  block (one more than the number of commas before the block) and the windows \<open>(high, low)\<close>
  of the block, in the order written; \<open>(0, [])\<close> when the syntax has no brace block.
\<close>

definition parse_split_operand_syntax :: "string \<Rightarrow> nat \<times> (int \<times> int) list" where
  "parse_split_operand_syntax syntax_text =
     (case search_brace syntax_text of
        None \<Rightarrow> (0, [])
      | Some (start, content) \<Rightarrow>
          (let bitfield_ranges =
                 map (\<lambda>(high, low). (int_of_digits high, int_of_digits low)) (find_bitfields content);
               before_brace = take start syntax_text
           in (length (filter (\<lambda>c. c = CHR '','') before_brace) + 1, bitfield_ranges)))"

subsection \<open>\<open>_encode_split_operand_instruction\<close>\<close>

record part_info =
  part_operand_num :: nat
  part_high_bit :: int
  part_low_bit :: int
  part_size :: int
  part_position :: int
  part_length :: int

text \<open>The first inner loop: one \<open>part_info\<close> entry per window, on consecutive slots.\<close>

fun make_part_info :: "instruction_definition \<Rightarrow> nat \<Rightarrow> (int \<times> int) list \<Rightarrow> part_info list" where
  "make_part_info d instr_def_operand_num [] = []"
| "make_part_info d instr_def_operand_num ((high_bit, low_bit) # rest) =
     (case get_operand_info d instr_def_operand_num of
        (op_pos, op_len) \<Rightarrow>
          \<lparr>part_operand_num = instr_def_operand_num, part_high_bit = high_bit,
           part_low_bit = low_bit, part_size = high_bit - low_bit + 1,
           part_position = op_pos, part_length = op_len\<rparr>
          # make_part_info d (instr_def_operand_num + 1) rest)"

text \<open>
  The second inner loop.  A shift by a negative count raises \<open>ValueError\<close>, which the handler
  of the function turns into the result \<open>None\<close>.
\<close>

fun encode_parts :: "int \<Rightarrow> int \<Rightarrow> part_info list \<Rightarrow> int option" where
  "encode_parts split_operand_value binary_value [] = Some binary_value"
| "encode_parts split_operand_value binary_value (part # rest) =
     (if part_size part < 0 \<or> part_low_bit part < 0 \<or> part_length part < 0 \<or> part_position part < 0
      then None
      else (let mask_v = push_bit (nat (part_size part)) 1 - 1;
                part_value = drop_bit (nat (part_low_bit part)) split_operand_value AND mask_v;
                op_mask = push_bit (nat (part_length part)) 1 - 1
            in encode_parts split_operand_value
                 (binary_value OR push_bit (nat (part_position part)) (part_value AND op_mask)) rest))"

text \<open>The \<open>/2\<close> modifier of the split operand.\<close>

definition split_operand_scaled :: "instruction_definition \<Rightarrow> nat \<Rightarrow> int \<Rightarrow> int" where
  "split_operand_scaled d parsed_idx split_operand_value =
     (let syntax_operands = extract_operand_patterns (d_syntax d)
      in if parsed_idx < length syntax_operands \<and> contains ''/2'' (syntax_operands ! parsed_idx)
         then split_operand_value div 2 else split_operand_value)"

text \<open>
  The loop over the parsed operands.  \<open>parse_operand_value\<close> (with the address, the labels and
  the instruction size fixed) is a parameter; \<open>None\<close> stands for its \<open>ValueError\<close>.
\<close>

fun encode_operands ::
  "(string \<Rightarrow> int option) \<Rightarrow> instruction_definition \<Rightarrow> nat \<Rightarrow> (int \<times> int) list \<Rightarrow>
   nat \<Rightarrow> nat \<Rightarrow> int \<Rightarrow> string list \<Rightarrow> int option"
where
  "encode_operands parse_operand_value d split_operand_index bitfield_ranges
     parsed_idx instr_def_operand_num binary_value [] = Some binary_value"
| "encode_operands parse_operand_value d split_operand_index bitfield_ranges
     parsed_idx instr_def_operand_num binary_value (operand_text # rest) =
     (case parse_operand_value operand_text of
        None \<Rightarrow> None
      | Some v \<Rightarrow>
          if parsed_idx = split_operand_index then
            (let split_operand_value = split_operand_scaled d parsed_idx v;
                 parts = make_part_info d instr_def_operand_num bitfield_ranges;
                 total_bits = sum_list (map part_size parts)
             in if total_bits < 0 then None
                else if split_operand_value > push_bit (nat total_bits) 1 - 1 \<and>
                        split_operand_value < push_bit 32 1 then None
                else (case encode_parts split_operand_value binary_value parts of
                        None \<Rightarrow> None
                      | Some b \<Rightarrow>
                          encode_operands parse_operand_value d split_operand_index bitfield_ranges
                            (parsed_idx + 1) (instr_def_operand_num + length bitfield_ranges) b rest))
          else
            (case get_operand_info d instr_def_operand_num of
               (op_pos, op_len) \<Rightarrow>
                 if op_len > 0 then
                   (if v > push_bit (nat op_len) 1 - 1 \<or> op_pos < 0 then None
                    else encode_operands parse_operand_value d split_operand_index bitfield_ranges
                           (parsed_idx + 1) (instr_def_operand_num + 1)
                           (binary_value OR push_bit (nat op_pos) (v AND (push_bit (nat op_len) 1 - 1)))
                           rest)
                 else encode_operands parse_operand_value d split_operand_index bitfield_ranges
                        (parsed_idx + 1) (instr_def_operand_num + 1) binary_value rest))"

definition encode_split_operand_instruction ::
  "(string \<Rightarrow> int option) \<Rightarrow> instruction_definition \<Rightarrow> int \<Rightarrow> string list \<Rightarrow> int option"
where
  "encode_split_operand_instruction parse_operand_value d base_opcode operands =
     (case parse_split_operand_syntax (d_syntax d) of
        (split_operand_pos, bitfield_ranges) \<Rightarrow>
          if bitfield_ranges = [] \<or> split_operand_pos = 0 then None
          else encode_operands parse_operand_value d (split_operand_pos - 1) bitfield_ranges
                 0 1 base_opcode operands)"

subsection \<open>The encoding as the specification words it\<close>








text \<open>The jump row \<open>J disp24 {[15:0],[23:16]}\<close> and a store row with a split offset between two registers.\<close>

definition j_row :: instruction_definition where
  "j_row = \<lparr>d_opcode = ''0x0000001D'', opcode_size = 32, d_instruction = ''J'',
            long_name = ''Jump Unconditional'', d_syntax = ''J disp24 {[15:0],[23:16]}'',
            reference = [], operand_count = 1,
            op1_pos = 16, op1_len = 16, op2_pos = 8, op2_len = 8, op3_pos = 0, op3_len = 0,
            op4_pos = 0, op4_len = 0, op5_pos = 0, op5_len = 0\<rparr>"

definition st_w_row :: instruction_definition where
  "st_w_row = \<lparr>d_opcode = ''0x00000059'', opcode_size = 32, d_instruction = ''ST.W'',
               long_name = ''Store Word'', d_syntax = ''ST.W A[b], off16 {[9:6][15:10][5:0]}, D[a]'',
               reference = [], operand_count = 3,
               op1_pos = 12, op1_len = 4, op2_pos = 28, op2_len = 4, op3_pos = 22, op3_len = 6,
               op4_pos = 16, op4_len = 6, op5_pos = 8, op5_len = 4\<rparr>"

text \<open>The operand values of the examples.\<close>

definition example_operands :: "string \<Rightarrow> int option" where
  "example_operands = map_of [(''A12'', 12), (''D15'', 15), (''4660'', 4660), (''74565'', 74565), (''70000'', 70000)]"

section \<open>Variant selection (\<open>instruction_loader.py\<close>)\<close>

subsection \<open>Operands and the table\<close>

text \<open>
  \<open>ParsedOperand\<close>: the text of an operand and its type, one of \<open>reg_d\<close>, \<open>reg_a\<close>, \<open>reg_e\<close>,
  \<open>reg_p\<close> and \<open>imm\<close>.  A legacy string operand is its own text and gets its type from
  \<open>_classify_operand_type_simple\<close>.
\<close>

record parsed_operand =
  op_text :: string
  op_type :: string

definition without_chars :: "string \<Rightarrow> string \<Rightarrow> string" where
  "without_chars cs s = filter (\<lambda>c. c \<notin> set cs) s"

definition classify_operand_type_simple :: "string \<Rightarrow> string" where
  "classify_operand_type_simple operand_text =
     (let clean = py_lower (without_chars ''[]#'' (py_strip operand_text))
      in if clean \<noteq> [] then
           (if hd clean = CHR ''d'' then ''reg_d''
            else if hd clean = CHR ''a'' then ''reg_a''
            else if hd clean = CHR ''e'' then ''reg_e''
            else if hd clean = CHR ''p'' then ''reg_p''
            else ''imm'')
         else ''imm'')"

definition legacy_operands :: "string list \<Rightarrow> parsed_operand list" where
  "legacy_operands texts =
     map (\<lambda>t. \<lparr>op_text = t, op_type = classify_operand_type_simple t\<rparr>) texts"

text \<open>\<open>self.instructions\<close>: the variants of a mnemonic in table order, keyed by the upper-case mnemonic.\<close>

type_synonym instruction_table = "string \<rightharpoonup> instruction_definition list"

definition get_instruction_variants :: "instruction_table \<Rightarrow> string \<Rightarrow> instruction_definition list" where
  "get_instruction_variants table mnemonic =
     (case table (py_upper mnemonic) of None \<Rightarrow> [] | Some vs \<Rightarrow> vs)"

subsection \<open>Register patterns\<close>

text \<open>\<open>$\<close>: the end of the text, or the position before a final newline.\<close>

definition at_end :: "string \<Rightarrow> bool" where
  "at_end s = (s = [] \<or> s = [newline])"

text \<open>
  A letter of \<open>letters\<close>, an opening bracket, a run of digits and a closing bracket at the head
  of the text: the letter, the number and what follows the match.
\<close>

definition match_indexed ::
  "string \<Rightarrow> string \<Rightarrow> (char \<times> int \<times> string) option"
where
  "match_indexed letters s =
     (case s of
        [] \<Rightarrow> None
      | c # r \<Rightarrow>
          (case r of
             [] \<Rightarrow> None
           | b # r1 \<Rightarrow>
               if c \<in> set letters \<and> b = CHR ''['' \<and> takeWhile is_digit r1 \<noteq> [] then
                 (case dropWhile is_digit r1 of
                    [] \<Rightarrow> None
                  | e # r2 \<Rightarrow>
                      if e = CHR '']'' then Some (c, int_of_digits (takeWhile is_digit r1), r2)
                      else None)
               else None))"

text \<open>A letter of \<open>letters\<close> and a run of digits at the head of the text.\<close>

definition match_plain ::
  "string \<Rightarrow> string \<Rightarrow> (char \<times> int \<times> string) option"
where
  "match_plain letters s =
     (case s of
        [] \<Rightarrow> None
      | c # r \<Rightarrow>
          if c \<in> set letters \<and> takeWhile is_digit r \<noteq> []
          then Some (c, int_of_digits (takeWhile is_digit r), dropWhile is_digit r)
          else None)"

definition register_letters :: string where
  "register_letters = ''DAEP''"

text \<open>The letters \<open>[DAEPC]\<close> under \<open>re.IGNORECASE\<close>.\<close>

definition any_case_letters :: string where
  "any_case_letters = ''DAEPCdaepc''"

text \<open>\<open>re.match(r'^([DAEP])(\d+)$', text)\<close>.\<close>

definition match_register_name :: "string \<Rightarrow> (char \<times> int) option" where
  "match_register_name s =
     (case match_plain register_letters s of
        None \<Rightarrow> None
      | Some (c, n, rest) \<Rightarrow> if at_end rest then Some (c, n) else None)"

text \<open>\<open>re.match(r'^([DAEP])\[(\d+)\]', text)\<close>.\<close>

definition match_specific_register :: "string \<Rightarrow> (char \<times> int) option" where
  "match_specific_register s =
     (case match_indexed register_letters s of
        None \<Rightarrow> None
      | Some (c, n, rest) \<Rightarrow> Some (c, n))"

text \<open>
  \<open>_is_specific_register_syntax\<close>: whether the syntax part names a register number, the
  register letter and the number.
\<close>

definition is_lower_or_upper_letter :: "char \<Rightarrow> bool" where
  "is_lower_or_upper_letter c = (c \<in> set lower_letters \<or> c \<in> set upper_letters)"

definition is_specific_register_syntax :: "string \<Rightarrow> bool \<times> char option \<times> int option" where
  "is_specific_register_syntax syntax_part =
     (case match_indexed any_case_letters syntax_part of
        Some (c, n, rest) \<Rightarrow> (True, Some (upper_char c), Some n)
      | None \<Rightarrow>
          (case syntax_part of
             c # b # x # e # rest \<Rightarrow>
               if c \<in> set any_case_letters \<and> b = CHR ''['' \<and> is_lower_or_upper_letter x \<and> e = CHR '']''
               then (False, Some (upper_char c), None)
               else (False, None, None)
           | _ \<Rightarrow> (False, None, None)))"

text \<open>
  \<open>_extract_register_info\<close>.  The compound form \<open>[a2]4\<close> returns a pair whose first component
  is itself a pair; the other forms return the register letter and the number.
\<close>

datatype register_info = No_register | Register char int | Compound_register char int int

definition match_compound :: "string \<Rightarrow> (char \<times> int \<times> int) option" where
  "match_compound s =
     (case s of
        [] \<Rightarrow> None
      | b # r \<Rightarrow>
          if b \<noteq> CHR ''['' then None
          else (case match_plain ''DAEPCaepc'' r of
                  None \<Rightarrow> None
                | Some (c, n, r1) \<Rightarrow>
                    (case r1 of
                       [] \<Rightarrow> None
                     | e # r2 \<Rightarrow>
                         if e = CHR '']'' \<and> takeWhile is_digit r2 \<noteq> [] \<and> at_end (dropWhile is_digit r2)
                         then Some (c, n, int_of_digits (takeWhile is_digit r2))
                         else None)))"

definition match_double_bracket :: "string \<Rightarrow> string \<Rightarrow> (char \<times> int) option" where
  "match_double_bracket letters s =
     (case s of
        [] \<Rightarrow> None
      | b # r \<Rightarrow>
          if b \<noteq> CHR ''['' then None
          else (case match_indexed letters r of
                  None \<Rightarrow> None
                | Some (c, n, r1) \<Rightarrow>
                    (case r1 of
                       [] \<Rightarrow> None
                     | e # r2 \<Rightarrow> if e = CHR '']'' then Some (c, n) else None)))"

definition match_single_bracket :: "string \<Rightarrow> (char \<times> int) option" where
  "match_single_bracket s =
     (case s of
        [] \<Rightarrow> None
      | b # r \<Rightarrow>
          if b \<noteq> CHR ''['' then None
          else (case match_plain any_case_letters r of
                  None \<Rightarrow> None
                | Some (c, n, r1) \<Rightarrow>
                    (case r1 of
                       [] \<Rightarrow> None
                     | e # r2 \<Rightarrow> if e = CHR '']'' then Some (c, n) else None)))"

definition extract_register_info :: "string \<Rightarrow> register_info" where
  "extract_register_info operand_text =
     (let operand = py_strip operand_text in
      case match_compound operand of
        Some (c, n, m) \<Rightarrow> Compound_register (upper_char c) n m
      | None \<Rightarrow>
          (case match_double_bracket any_case_letters operand of
             Some (c, n) \<Rightarrow> Register (upper_char c) n
           | None \<Rightarrow>
               (case match_indexed any_case_letters operand of
                  Some (c, n, rest) \<Rightarrow> Register (upper_char c) n
                | None \<Rightarrow>
                    (case match_single_bracket operand of
                       Some (c, n) \<Rightarrow> Register (upper_char c) n
                     | None \<Rightarrow>
                         (case match_plain any_case_letters operand of
                            Some (c, n, rest) \<Rightarrow> Register (upper_char c) n
                          | None \<Rightarrow> No_register)))))"

text \<open>\<open>_operand_matches_syntax_register\<close>.\<close>

definition operand_matches_syntax_register :: "string \<Rightarrow> string \<Rightarrow> bool" where
  "operand_matches_syntax_register operand_text syntax_part =
     (case extract_register_info operand_text of
        No_register \<Rightarrow> True
      | Compound_register c n m \<Rightarrow>
          (case is_specific_register_syntax syntax_part of
             (is_specific, None, syn_num) \<Rightarrow> True
           | (is_specific, Some syn_type, syn_num) \<Rightarrow> False)
      | Register op_letter op_num \<Rightarrow>
          (case is_specific_register_syntax syntax_part of
             (is_specific, None, syn_num) \<Rightarrow> True
           | (is_specific, Some syn_type, syn_num) \<Rightarrow>
               if op_letter \<noteq> syn_type then False
               else if is_specific then Some op_num = syn_num
               else True))"

subsection \<open>Syntax operand types\<close>

text \<open>The operand patterns of a syntax where the text after the mnemonic is not stripped first.\<close>

definition operand_patterns_unstripped :: "string \<Rightarrow> string list" where
  "operand_patterns_unstripped syntax_text =
     (let parts = split_first_word syntax_text
      in if length parts < 2 then []
         else map py_strip (split_on (CHR '','') (remove_braces (parts ! 1))))"

definition type_of_letter :: "char \<Rightarrow> string" where
  "type_of_letter c =
     (if c = CHR ''D'' then ''reg_d'' else if c = CHR ''A'' then ''reg_a''
      else if c = CHR ''E'' then ''reg_e'' else ''reg_p'')"

text \<open>
  One pattern of \<open>_parse_syntax_operand_types\<close>: \<open>^\[([DAEP])\[(\d+)\]\]\<close>, then
  \<open>^([DAEP])\s*\[\<close>, else an immediate.
\<close>

definition syntax_operand_type :: "string \<Rightarrow> string" where
  "syntax_operand_type pattern_text =
     (let pattern_upper = py_upper (py_strip pattern_text) in
      case match_double_bracket register_letters pattern_upper of
        Some (c, n) \<Rightarrow> type_of_letter c
      | None \<Rightarrow>
          (case pattern_upper of
             [] \<Rightarrow> ''imm''
           | c # r \<Rightarrow>
               if c \<in> set register_letters \<and> take 1 (dropWhile is_space r) = ''[''
               then type_of_letter c else ''imm''))"

definition syntax_operand_types :: "instruction_definition \<Rightarrow> string list" where
  "syntax_operand_types d = map syntax_operand_type (operand_patterns_unstripped (d_syntax d))"

subsection \<open>Operand widths and scaling\<close>

text \<open>\<open>re.search(r'(off|imm|disp|const|rel)(\d+)', text, re.IGNORECASE)\<close>: the number of group 2.\<close>

definition width_keywords :: "string list" where
  "width_keywords = [''off'', ''imm'', ''disp'', ''const'', ''rel'']"

definition width_at :: "string \<Rightarrow> int option" where
  "width_at s =
     (case filter (\<lambda>kw. py_lower (take (length kw) s) = kw \<and>
                         takeWhile is_digit (drop (length kw) s) \<noteq> []) width_keywords of
        [] \<Rightarrow> None
      | kw # others \<Rightarrow> Some (int_of_digits (takeWhile is_digit (drop (length kw) s))))"

fun width_search :: "string \<Rightarrow> int option" where
  "width_search [] = None"
| "width_search (c # cs) =
     (case width_at (c # cs) of Some w \<Rightarrow> Some w | None \<Rightarrow> width_search cs)"

text \<open>\<open>get_operand_bit_width\<close>; the operand number is 1-based.\<close>

definition get_operand_bit_width :: "instruction_definition \<Rightarrow> nat \<Rightarrow> int" where
  "get_operand_bit_width d operand_num =
     (let parts = split_first_word (d_syntax d) in
      if length parts < 2 then snd (get_operand_info d operand_num)
      else (let operand_patterns = map py_strip (split_on (CHR '','') (parts ! 1)) in
            if operand_num > length operand_patterns then snd (get_operand_info d operand_num)
            else (case search_brace (operand_patterns ! (operand_num - 1)) of
                    Some (start, fields_str) \<Rightarrow>
                      sum_list (map (\<lambda>(high, low). int_of_digits high - int_of_digits low + 1)
                                    (find_bitfields fields_str))
                  | None \<Rightarrow>
                      (case width_search (operand_patterns ! (operand_num - 1)) of
                         Some w \<Rightarrow> w
                       | None \<Rightarrow> snd (get_operand_info d operand_num)))))"

text \<open>
  \<open>re.search(r'\boff\d+\b', text, re.IGNORECASE)\<close>.  The flag says whether the character before
  the head of the text is a word character.
\<close>

fun off_word_from :: "bool \<Rightarrow> string \<Rightarrow> bool" where
  "off_word_from prev_word [] = False"
| "off_word_from prev_word (c # cs) =
     ((\<not> prev_word \<and> py_lower (take 3 (c # cs)) = ''off'' \<and>
       takeWhile is_digit (drop 3 (c # cs)) \<noteq> [] \<and>
       (case dropWhile is_digit (drop 3 (c # cs)) of [] \<Rightarrow> True | x # xs \<Rightarrow> \<not> is_word_char x))
      \<or> off_word_from (is_word_char c) cs)"

definition off_word_search :: "string \<Rightarrow> bool" where
  "off_word_search s = off_word_from False s"

definition word_aligned_mnemonics :: "string list" where
  "word_aligned_mnemonics = [''LD.W'', ''ST.W'', ''LD.A'', ''LEA'']"

text \<open>The scaling of an immediate before the width check.\<close>

definition scaled_value :: "instruction_definition \<Rightarrow> string list \<Rightarrow> nat \<Rightarrow> int \<Rightarrow> int" where
  "scaled_value d syntax_operands i v =
     (if i < length syntax_operands then
        (let syntax_op = syntax_operands ! i in
         if contains ''/4'' syntax_op then v div 4
         else if contains ''/2'' syntax_op then v div 2
         else if contains ''off'' (py_lower syntax_op) \<and> \<not> contains ''/4'' syntax_op then
           (if d_instruction d \<in> set word_aligned_mnemonics \<and> off_word_search syntax_op
            then v div 4 else v)
         else v)
      else v)"

subsection \<open>\<open>_find_best_variant_by_operand_range\<close>\<close>

definition register_initials :: string where
  "register_initials = ''adep''"

text \<open>
  The value of an operand: \<open>None\<close> for a register (any text whose first character, brackets and
  \<open>#\<close> removed, is one of \<open>a d e p\<close>) and for a text the numeric parser rejects.
\<close>

definition operand_value :: "string \<Rightarrow> int option" where
  "operand_value operand_str =
     (let clean_operand = py_strip operand_str;
          inner = py_strip (without_chars ''[]#'' clean_operand)
      in if inner \<noteq> [] \<and> lower_char (hd inner) \<in> set register_initials then None
         else (case parse_numeric (py_strip (without_chars ''#'' clean_operand)) of
                 Inr v \<Rightarrow> Some v
               | Inl e \<Rightarrow> None))"

definition starts_like_register :: "string \<Rightarrow> bool" where
  "starts_like_register parsed_op =
     (let clean_operand = without_chars ''[]#'' (py_strip parsed_op)
      in clean_operand \<noteq> [] \<and> lower_char (hd clean_operand) \<in> set register_initials)"

definition fits_width :: "int \<Rightarrow> int \<Rightarrow> bool" where
  "fits_width op_len v =
     ((- (push_bit (nat (op_len - 1)) 1) \<le> v \<and> v \<le> push_bit (nat (op_len - 1)) 1 - 1) \<or>
      (0 \<le> v \<and> v \<le> push_bit (nat op_len) 1 - 1))"

text \<open>
  The operand loop of one variant, from operand \<open>i\<close> on.  \<open>syntax_operands\<close> is the local variable
  of that name, which the scaling step assigns again.  A negative width makes the shift
  raise \<open>ValueError\<close>, which nothing catches.
\<close>

fun can_fit_from ::
  "instruction_definition \<Rightarrow> string list \<Rightarrow> string list \<Rightarrow> nat \<Rightarrow> int option list \<Rightarrow> py_error + bool"
where
  "can_fit_from d operands syntax_operands i [] = Inr True"
| "can_fit_from d operands syntax_operands i (None # rest) =
     (if i < length syntax_operands \<and> i < length operands \<and>
         starts_like_register (operands ! i) \<and>
         \<not> operand_matches_syntax_register (operands ! i) (syntax_operands ! i)
      then Inr False
      else can_fit_from d operands syntax_operands (i + 1) rest)"
| "can_fit_from d operands syntax_operands i (Some orig_value # rest) =
     (let op_len = get_operand_bit_width d (i + 1) in
      if op_len = 0 then can_fit_from d operands syntax_operands (i + 1) rest
      else (let syntax_operands' =
                  (if length (split_first_word (d_syntax d)) > 1
                   then extract_operand_patterns (d_syntax d) else syntax_operands);
                v = scaled_value d syntax_operands' i orig_value
            in if op_len < 0 then Inl ValueError
               else if \<not> fits_width op_len v then Inr False
               else can_fit_from d operands syntax_operands' (i + 1) rest))"

definition can_fit :: "string list \<Rightarrow> instruction_definition \<Rightarrow> py_error + bool" where
  "can_fit operands d =
     can_fit_from d operands (operand_patterns_unstripped (d_syntax d)) 0 (map operand_value operands)"

fun suitable_variants ::
  "string list \<Rightarrow> instruction_definition list \<Rightarrow> py_error + instruction_definition list"
where
  "suitable_variants operands [] = Inr []"
| "suitable_variants operands (d # ds) =
     (case can_fit operands d of
        Inl e \<Rightarrow> Inl e
      | Inr ok \<Rightarrow>
          (case suitable_variants operands ds of
             Inl e \<Rightarrow> Inl e
           | Inr rest \<Rightarrow> Inr (if ok then d # rest else rest)))"

text \<open>\<open>calculate_non_specific_matches\<close>.\<close>

definition calculate_non_specific_matches :: "string list \<Rightarrow> instruction_definition \<Rightarrow> nat" where
  "calculate_non_specific_matches operands d =
     length (filter (\<lambda>(syntax_op, operand).
                       \<not> fst (is_specific_register_syntax syntax_op) \<and>
                       extract_register_info operand \<noteq> No_register)
               (zip (extract_operand_patterns (d_syntax d)) operands))"

definition find_best_variant_by_operand_range ::
  "instruction_definition list \<Rightarrow> string list \<Rightarrow> py_error + instruction_definition option"
where
  "find_best_variant_by_operand_range variants operands =
     (case suitable_variants operands variants of
        Inl e \<Rightarrow> Inl e
      | Inr suitable \<Rightarrow>
          if suitable = [] then Inr None
          else (let has_labels = (None \<in> set (map operand_value operands)) in
                if has_labels
                then Inr (Some (hd (sort_key (\<lambda>v. (calculate_non_specific_matches operands v,
                                                     - opcode_size v)) suitable)))
                else Inr (Some (hd (sort_key (\<lambda>v. (calculate_non_specific_matches operands v,
                                                     opcode_size v)) suitable)))))"

subsection \<open>\<open>find_instruction\<close>\<close>

text \<open>\<open>re.match(r'^%?[dDaAeEpP](\d+|\\d+\\])$', text)\<close> of the \<open>LOOP\<close> special case.\<close>

definition backslash :: char where
  "backslash = CHR 0x5C"

definition loop_register_match :: "string \<Rightarrow> bool" where
  "loop_register_match s =
     (let r = (if take 1 s = ''%'' then drop 1 s else s) in
      case r of
        [] \<Rightarrow> False
      | c # t \<Rightarrow>
          c \<in> set ''dDaAeEpP'' \<and>
          ((takeWhile is_digit t \<noteq> [] \<and> at_end (dropWhile is_digit t)) \<or>
           (case t of
              [] \<Rightarrow> False
            | b # u \<Rightarrow>
                b = backslash \<and> takeWhile (\<lambda>x. x = CHR ''d'') u \<noteq> [] \<and>
                (case dropWhile (\<lambda>x. x = CHR ''d'') u of
                   b2 # e # w \<Rightarrow> b2 = backslash \<and> e = CHR '']'' \<and> at_end w
                 | _ \<Rightarrow> False))))"

definition loop_has_label :: "string list \<Rightarrow> bool" where
  "loop_has_label operand_strs =
     list_ex (\<lambda>op. \<not> loop_register_match (py_strip op) \<and> \<not> startswith (py_strip op) ''#'') operand_strs"

text \<open>The \<open>no_implicit\<close> filter keeps a variant whose syntax mentions neither \<open>A[10]\<close> nor \<open>A[15]\<close>.\<close>

definition mentions_implicit :: "instruction_definition \<Rightarrow> bool" where
  "mentions_implicit v =
     (contains ''a[10]'' (py_lower (d_syntax v)) \<or> contains ''a[15]'' (py_lower (d_syntax v)) \<or>
      contains ''a10'' (py_lower (d_syntax v)) \<or> contains ''a15'' (py_lower (d_syntax v)))"

text \<open>
  The register check of the type filter: a syntax operand that names a register number
  rejects an operand that is a register name with another letter or number.
\<close>

fun registers_compatible :: "string list \<Rightarrow> parsed_operand list \<Rightarrow> bool" where
  "registers_compatible [] operands = True"
| "registers_compatible (syntax_op # others) [] = True"
| "registers_compatible (syntax_op # others) (operand # operands) =
     (case match_specific_register (py_upper syntax_op) of
        None \<Rightarrow> registers_compatible others operands
      | Some (reg_type, reg_num) \<Rightarrow>
          (case match_register_name (py_upper (without_chars ''[]'' (py_strip (op_text operand)))) of
             None \<Rightarrow> registers_compatible others operands
           | Some (actual_type, actual_num) \<Rightarrow>
               if actual_type \<noteq> reg_type \<or> actual_num \<noteq> reg_num then False
               else registers_compatible others operands))"

definition type_matched :: "parsed_operand list \<Rightarrow> instruction_definition \<Rightarrow> bool" where
  "type_matched operands variant =
     (syntax_operand_types variant = map op_type operands \<and>
      registers_compatible (extract_operand_patterns (d_syntax variant)) operands)"

text \<open>The candidates: the variants with the operand count, after the two configuration filters.\<close>

definition candidates ::
  "bool \<Rightarrow> bool \<Rightarrow> instruction_table \<Rightarrow> string \<Rightarrow> int \<Rightarrow> instruction_definition list"
where
  "candidates force_32bit no_implicit table mnemonic n =
     (let by_count = filter (\<lambda>v. operand_count v = n) (get_instruction_variants table mnemonic);
          sized = (if force_32bit then filter (\<lambda>v. opcode_size v \<ge> 32) by_count else by_count)
      in if no_implicit then filter (\<lambda>v. \<not> mentions_implicit v) sized else sized)"

definition find_instruction ::
  "bool \<Rightarrow> bool \<Rightarrow> instruction_table \<Rightarrow> string \<Rightarrow> int \<Rightarrow> parsed_operand list \<Rightarrow>
   py_error + instruction_definition option"
where
  "find_instruction force_32bit no_implicit table mnemonic n operands =
     (let variants = get_instruction_variants table mnemonic;
          matching_by_count = filter (\<lambda>v. operand_count v = n) variants
      in if py_upper mnemonic = ''LOOP'' \<and> operands \<noteq> [] \<and> loop_has_label (map op_text operands) \<and>
            length matching_by_count > 1
         then Inr (Some (hd (sort_key (\<lambda>v. - opcode_size v) matching_by_count)))
         else (let matching_variants = candidates force_32bit no_implicit table mnemonic n in
               if matching_variants = [] then Inr None
               else if length matching_variants = 1 then Inr (Some (hd matching_variants))
               else (let type_matched_variants = filter (type_matched operands) matching_variants in
                     if operands \<noteq> [] \<and> type_matched_variants \<noteq> [] then
                       (if length type_matched_variants > 1 then
                          (case find_best_variant_by_operand_range type_matched_variants
                                  (map op_text operands) of
                             Inl e \<Rightarrow> Inl e
                           | Inr (Some best_match) \<Rightarrow> Inr (Some best_match)
                           | Inr None \<Rightarrow>
                               Inr (Some (hd (sort_key (\<lambda>v. - opcode_size v) type_matched_variants))))
                        else Inr (Some (hd type_matched_variants)))
                     else Inr (Some (hd (sort_key opcode_size matching_variants))))))"

subsection \<open>Example rows\<close>







text \<open>
  The two \<open>MOV.A\<close> rows, 16-bit and 32-bit, with placeholders for both registers, and the
  16-bit jump row beside the 32-bit \<open>j_row\<close>.
\<close>

definition mova_short_row :: instruction_definition where
  "mova_short_row = \<lparr>d_opcode = ''0x0060'', opcode_size = 16, d_instruction = ''MOV.A'',
            long_name = ''Move Value to Address Register'', d_syntax = ''MOV.A A[a], D[b]'',
            reference = [], operand_count = 2,
            op1_pos = 8, op1_len = 4, op2_pos = 12, op2_len = 4, op3_pos = 0, op3_len = 0,
            op4_pos = 0, op4_len = 0, op5_pos = 0, op5_len = 0\<rparr>"

definition mova_wide_row :: instruction_definition where
  "mova_wide_row = \<lparr>d_opcode = ''0x06300001'', opcode_size = 32, d_instruction = ''MOV.A'',
            long_name = ''Move Value to Address Register'', d_syntax = ''MOV.A A[c], D[b]'',
            reference = [], operand_count = 2,
            op1_pos = 28, op1_len = 4, op2_pos = 12, op2_len = 4, op3_pos = 0, op3_len = 0,
            op4_pos = 0, op4_len = 0, op5_pos = 0, op5_len = 0\<rparr>"

definition mova_table :: instruction_table where
  "mova_table = [''MOV.A'' \<mapsto> [mova_short_row, mova_wide_row]]"

definition j_short_row :: instruction_definition where
  "j_short_row = \<lparr>d_opcode = ''0x003C'', opcode_size = 16, d_instruction = ''J'',
            long_name = ''Jump Unconditional'', d_syntax = ''J disp8/2'',
            reference = [], operand_count = 1,
            op1_pos = 8, op1_len = 8, op2_pos = 0, op2_len = 0, op3_pos = 0, op3_len = 0,
            op4_pos = 0, op4_len = 0, op5_pos = 0, op5_len = 0\<rparr>"

definition jump_table :: instruction_table where
  "jump_table = [''J'' \<mapsto> [j_short_row, j_row]]"

subsection \<open>The second selection of \<open>encode_instruction\<close>\<close>

text \<open>
  After \<open>find_instruction\<close> the encoder selects again, the smallest variant that fits, only for
  a mnemonic of this list that has more than one variant; for any other mnemonic the row
  that \<open>find_instruction\<close> returned is the one encoded.
\<close>

definition optimize_mnemonics :: "string list" where
  "optimize_mnemonics = [''J'', ''LOOP'', ''JNZ'', ''JEQ'', ''JNE'', ''JGE'', ''JL'', ''JLT'', ''JGEU'',
                         ''JLTU'', ''CALL'', ''MOV'', ''MOV.AA'', ''ADD'', ''SUB'']"

definition selects_again :: "instruction_table \<Rightarrow> string \<Rightarrow> bool" where
  "selects_again table mnemonic =
     (length (get_instruction_variants table mnemonic) > 1 \<and> py_upper mnemonic \<in> set optimize_mnemonics)"

section \<open>Properties of the convergence loop\<close>

lemma passes_logged_simps [simp]:
  "passes_logged [] = 0"
  "passes_logged (xs @ ys) = passes_logged xs + passes_logged ys"
  "passes_logged (Debug_pass k # xs) = Suc (passes_logged xs)"
  "passes_logged (Info_stabilized k # xs) = passes_logged xs"
  "passes_logged (Info_forcing_another_pass k # xs) = passes_logged xs"
  "passes_logged (Warning_not_converged k # xs) = passes_logged xs"
  by (simp_all add: passes_logged_def)

lemma optimize_loop_done:
  "\<not> it < max_iterations \<Longrightarrow> optimize_loop enc it objs lg = (objs, it, lg)"
  by (subst optimize_loop.simps) simp

lemma optimize_loop_stop:
  "it < max_iterations \<Longrightarrow> optimization_pass enc objs = (objs', False) \<Longrightarrow> 1 \<le> it \<Longrightarrow>
   optimize_loop enc it objs lg =
     (objs', it + 1, (lg @ [Debug_pass (it + 1)]) @ [Info_stabilized (it + 1)])"
  by (subst optimize_loop.simps) (simp add: Let_def)

lemma optimize_loop_continue:
  "it < max_iterations \<Longrightarrow> optimization_pass enc objs = (objs', ch) \<Longrightarrow> ch \<or> it = 0 \<Longrightarrow>
   optimize_loop enc it objs lg =
     optimize_loop enc (it + 1) objs'
       (if \<not> ch then (lg @ [Debug_pass (it + 1)]) @ [Info_forcing_another_pass (it + 1)]
        else lg @ [Debug_pass (it + 1)])"
  by (subst optimize_loop.simps) (auto simp add: Let_def)

lemma optimize_loop_inv:
  "objs = state_after enc objs0 iteration \<Longrightarrow>
   loop_post enc objs0 iteration lg (optimize_loop enc iteration objs lg)"
proof (induction enc iteration objs lg rule: optimize_loop.induct)
  case (1 enc iteration objs lg)
  show ?case
  proof (cases "iteration < max_iterations")
    case False
    then have "optimize_loop enc iteration objs lg = (objs, iteration, lg)"
      by (rule optimize_loop_done)
    then show ?thesis
      using False 1(2) by (auto simp add: loop_post_def)
  next
    case True
    obtain objs' ch where pass: "optimization_pass enc objs = (objs', ch)"
      by (cases "optimization_pass enc objs") auto
    have st: "objs' = state_after enc objs0 (iteration + 1)"
      using pass 1(2) by simp
    have ch: "ch = sizes_changed_in enc objs0 (iteration + 1)"
      using pass 1(2) by (simp add: sizes_changed_in_def)
    show ?thesis
    proof (cases "\<not> ch \<and> iteration + 1 \<ge> 2")
      case stop: True
      have "optimize_loop enc iteration objs lg =
              (objs', iteration + 1,
               (lg @ [Debug_pass (iteration + 1)]) @ [Info_stabilized (iteration + 1)])"
        using True pass stop by (intro optimize_loop_stop) auto
      then show ?thesis
        using True st ch stop
        by (auto simp add: loop_post_def)
    next
      case cont: False
      let ?lg2 = "if \<not> ch
                  then (lg @ [Debug_pass (iteration + 1)]) @ [Info_forcing_another_pass (iteration + 1)]
                  else lg @ [Debug_pass (iteration + 1)]"
      have eq: "optimize_loop enc iteration objs lg = optimize_loop enc (iteration + 1) objs' ?lg2"
        using True pass cont by (intro optimize_loop_continue) auto
      have IH: "loop_post enc objs0 (iteration + 1) ?lg2
                  (optimize_loop enc (iteration + 1) objs' ?lg2)"
        using "1.IH"[OF True refl refl refl pass[symmetric] cont st] .
      obtain o2 n l2 where r: "optimize_loop enc (iteration + 1) objs' ?lg2 = (o2, n, l2)"
        by (cases "optimize_loop enc (iteration + 1) objs' ?lg2") auto
      from IH r obtain new where
        a: "iteration + 1 \<le> n"
        and b: "iteration + 1 < max_iterations \<longrightarrow> iteration + 1 < n \<and> n \<le> max_iterations"
        and c: "o2 = state_after enc objs0 n" and d: "l2 = ?lg2 @ new"
        and e: "passes_logged new = n - (iteration + 1)"
        and f: "\<forall>k. Info_stabilized k \<in> set new \<longrightarrow>
                    k = n \<and> 2 \<le> n \<and> \<not> sizes_changed_in enc objs0 n"
        and g: "(\<forall>k. Info_stabilized k \<notin> set new) \<longrightarrow> max_iterations \<le> n"
        and h: "\<forall>k. Warning_not_converged k \<notin> set new"
        and i: "\<forall>k. iteration + 1 < k \<and> k < n \<longrightarrow> sizes_changed_in enc objs0 k \<or> k < 2"
        by (auto simp add: loop_post_def)
      have n_le: "n \<le> max_iterations"
      proof (cases "iteration + 1 < max_iterations")
        case True then show ?thesis using b by simp
      next
        case False
        then have "optimize_loop enc (iteration + 1) objs' ?lg2 = (objs', iteration + 1, ?lg2)"
          by (rule optimize_loop_done)
        with r True show ?thesis by simp
      qed
      let ?new' = "(if \<not> ch
                    then [Debug_pass (iteration + 1), Info_forcing_another_pass (iteration + 1)]
                    else [Debug_pass (iteration + 1)]) @ new"
      have l2: "l2 = lg @ ?new'" using d by simp
      have pl: "passes_logged ?new' = n - iteration" using e a by simp
      have stab: "\<forall>k. Info_stabilized k \<in> set ?new' \<longrightarrow>
                       k = n \<and> 2 \<le> n \<and> \<not> sizes_changed_in enc objs0 n"
        using f by auto
      have nostab: "(\<forall>k. Info_stabilized k \<notin> set ?new') \<longrightarrow> max_iterations \<le> n"
        using g by auto
      have nowarn: "\<forall>k. Warning_not_converged k \<notin> set ?new'"
        using h by auto
      have mid: "\<forall>k. iteration < k \<and> k < n \<longrightarrow> sizes_changed_in enc objs0 k \<or> k < 2"
      proof (intro allI impI)
        fix k assume k: "iteration < k \<and> k < n"
        show "sizes_changed_in enc objs0 k \<or> k < 2"
        proof (cases "k = iteration + 1")
          case True
          then show ?thesis using cont ch by auto
        next
          case False
          then show ?thesis using i k by auto
        qed
      qed
      show ?thesis
        unfolding eq r loop_post_def
        using a n_le c l2 pl stab nostab nowarn mid
        by (intro case_prodI2 conjI exI[of _ ?new']; simp)
    qed
  qed
qed

text \<open>
  Claim C7.  Once the encoder is available, \<open>_optimize_instruction_sizes\<close> always returns
  success.  It runs \<open>n\<close> iterations with \<open>1 \<le> n \<le> K_MAX = 10\<close> (one pass message per
  iteration) and returns the state after these \<open>n\<close> iterations.  It declares convergence
  only for its last iteration \<open>n\<close>, only if \<open>n \<ge> 2\<close> and iteration \<open>n\<close> changed no size,
  and it never runs past an iteration \<open>k \<ge> 2\<close> that changed no size.  If convergence is not
  declared then \<open>n = 10\<close>, and whenever \<open>n = 10\<close> the not-converged warning is logged while
  the result is still success.
\<close>

theorem convergence_loop_bounded:
  assumes "optimize_instruction_sizes True enc objs = (ok, objs', lg)"
  shows "ok \<and> max_iterations = 10 \<and>
         (\<exists>n. 1 \<le> n \<and> n \<le> max_iterations \<and> passes_logged lg = n \<and>
              objs' = state_after enc objs n \<and>
              (\<forall>k. Info_stabilized k \<in> set lg \<longrightarrow>
                     k = n \<and> 2 \<le> n \<and> \<not> sizes_changed_in enc objs n) \<and>
              (\<forall>k. 0 < k \<and> k < n \<longrightarrow> sizes_changed_in enc objs k \<or> k < 2) \<and>
              ((\<forall>k. Info_stabilized k \<notin> set lg) \<longrightarrow> n = max_iterations) \<and>
              (n = max_iterations \<longrightarrow> Warning_not_converged max_iterations \<in> set lg))"
proof -
  obtain o1 n l1 where r: "optimize_loop enc 0 objs [] = (o1, n, l1)"
    by (cases "optimize_loop enc 0 objs []") auto
  have "loop_post enc objs 0 [] (optimize_loop enc 0 objs [])"
    by (rule optimize_loop_inv) simp
  with r have
    n1: "0 < n" and n2: "n \<le> max_iterations" and st: "o1 = state_after enc objs n"
    and pl: "passes_logged l1 = n"
    and stab: "\<forall>k. Info_stabilized k \<in> set l1 \<longrightarrow>
                    k = n \<and> 2 \<le> n \<and> \<not> sizes_changed_in enc objs n"
    and nostab: "(\<forall>k. Info_stabilized k \<notin> set l1) \<longrightarrow> max_iterations \<le> n"
    and mid: "\<forall>k. 0 < k \<and> k < n \<longrightarrow> sizes_changed_in enc objs k \<or> k < 2"
    by (auto simp add: loop_post_def max_iterations_def)
  from assms r have ok: "ok" and o': "objs' = o1"
    and lg: "lg = (if n \<ge> max_iterations then l1 @ [Warning_not_converged max_iterations] else l1)"
    by (auto simp add: optimize_instruction_sizes_def)
  have "1 \<le> n \<and> n \<le> max_iterations \<and> passes_logged lg = n \<and>
        objs' = state_after enc objs n \<and>
        (\<forall>k. Info_stabilized k \<in> set lg \<longrightarrow>
               k = n \<and> 2 \<le> n \<and> \<not> sizes_changed_in enc objs n) \<and>
        (\<forall>k. 0 < k \<and> k < n \<longrightarrow> sizes_changed_in enc objs k \<or> k < 2) \<and>
        ((\<forall>k. Info_stabilized k \<notin> set lg) \<longrightarrow> n = max_iterations) \<and>
        (n = max_iterations \<longrightarrow> Warning_not_converged max_iterations \<in> set lg)"
    using n1 n2 st pl stab nostab mid o' lg by auto
  then show ?thesis using ok by (auto simp add: max_iterations_def)
qed

text \<open>The theorem at an empty link: two iterations, convergence declared, no warning.\<close>

theorem convergence_loop_bounded_witness:
  "optimize_instruction_sizes True (\<lambda>gl a s. None) [] =
     (True, [], [Debug_pass 1, Info_forcing_another_pass 1, Debug_pass 2, Info_stabilized 2]) \<and>
   (\<exists>n. 1 \<le> n \<and> n \<le> max_iterations \<and>
      passes_logged [Debug_pass 1, Info_forcing_another_pass 1, Debug_pass 2, Info_stabilized 2] = n \<and>
      (\<forall>k. Info_stabilized k \<in>
              set [Debug_pass 1, Info_forcing_another_pass 1, Debug_pass 2, Info_stabilized 2] \<longrightarrow>
            k = n \<and> 2 \<le> n \<and> \<not> sizes_changed_in (\<lambda>gl a s. None) [] n))"
proof -
  have e: "optimize_instruction_sizes True (\<lambda>gl a s. None) [] =
     (True, [], [Debug_pass 1, Info_forcing_another_pass 1, Debug_pass 2, Info_stabilized 2])"
    by code_simp
  from convergence_loop_bounded[OF e] obtain n where
    "1 \<le> n \<and> n \<le> max_iterations \<and>
      passes_logged [Debug_pass 1, Info_forcing_another_pass 1, Debug_pass 2, Info_stabilized 2] = n \<and>
      (\<forall>k. Info_stabilized k \<in>
              set [Debug_pass 1, Info_forcing_another_pass 1, Debug_pass 2, Info_stabilized 2] \<longrightarrow>
            k = n \<and> 2 \<le> n \<and> \<not> sizes_changed_in (\<lambda>gl a s. None) [] n)"
    by blast
  with e show ?thesis by blast
qed

lemma convergence_cap_example:
  "fst (optimize_instruction_sizes True oscillating_encoder [oscillating_object]) = True \<and>
   snd (snd (optimize_instruction_sizes True oscillating_encoder [oscillating_object])) =
     [Debug_pass 1, Debug_pass 2, Debug_pass 3, Debug_pass 4, Debug_pass 5, Debug_pass 6,
      Debug_pass 7, Debug_pass 8, Debug_pass 9, Debug_pass 10, Warning_not_converged 10]"
  by code_simp

section \<open>Properties of the Intel HEX writer\<close>

lemma and_255: "(x::int) AND 255 = x mod 256"
proof -
  have "(x::int) AND mask 8 = x mod 2 ^ 8"
    by (simp only: take_bit_eq_mask[symmetric] take_bit_eq_mod)
  then show ?thesis by (simp add: mask_eq_exp_minus_1)
qed

lemma and_65535: "(x::int) AND 65535 = x mod 65536"
proof -
  have "(x::int) AND mask 16 = x mod 2 ^ 16"
    by (simp only: take_bit_eq_mask[symmetric] take_bit_eq_mod)
  then show ?thesis by (simp add: mask_eq_exp_minus_1)
qed

lemma drop_bit_8: "drop_bit 8 (x::int) = x div 256"
  by (simp add: drop_bit_eq_div)

lemma drop_bit_16: "drop_bit 16 (x::int) = x div 65536"
  by (simp add: drop_bit_eq_div)

lemma hex_val_hex_char: "d < 16 \<Longrightarrow> hex_val (hex_char d) = Some (int d)"
proof -
  have "\<forall>d \<in> set [0 ..< 16]. hex_val (hex_char d) = Some (int d)"
    by code_simp
  then show "d < 16 \<Longrightarrow> hex_val (hex_char d) = Some (int d)" by simp
qed

lemma format_X_byte:
  "0 \<le> b \<Longrightarrow> b \<le> 255 \<Longrightarrow> format_X 2 b = [hex_char (nat b div 16), hex_char (nat b mod 16)]"
  by (cases "nat b < 16")
     (auto simp add: format_X_def hex_digits.simps[of "nat b"] hex_digits.simps[of "nat b div 16"]
        hex_char_def hex_chars_def)

lemma decode_pairs_digits:
  "d1 < 16 \<Longrightarrow> d2 < 16 \<Longrightarrow>
   decode_pairs (hex_char d1 # hex_char d2 # rest) =
     map_option ((#) (16 * int d1 + int d2)) (decode_pairs rest)"
  by (simp add: hex_val_hex_char split: option.splits)

lemma decode_pairs_byte:
  assumes "0 \<le> b" "b \<le> 255"
  shows "decode_pairs (format_X 2 b @ rest) = map_option ((#) b) (decode_pairs rest)"
proof -
  have d: "nat b div 16 < 16" "nat b mod 16 < 16" using assms by auto
  have v: "16 * int (nat b div 16) + int (nat b mod 16) = b"
    using assms by (simp add: zdiv_int zmod_int)
  have "decode_pairs (format_X 2 b @ rest) =
        decode_pairs (hex_char (nat b div 16) # hex_char (nat b mod 16) # rest)"
    using assms by (simp only: format_X_byte append.simps)
  also have "\<dots> = map_option ((#) (16 * int (nat b div 16) + int (nat b mod 16))) (decode_pairs rest)"
    by (rule decode_pairs_digits[OF d])
  finally show ?thesis by (simp only: v)
qed

lemma format_X_word:
  assumes "0 \<le> a" "a < 65536"
  shows "format_X 4 a = format_X 2 (a div 256) @ format_X 2 (a mod 256)"
proof -
  define n where "n = nat a"
  have a: "a = int n" and n: "n < 65536" using assms by (auto simp add: n_def)
  have hi: "nat (a div 256) = n div 256" and lo: "nat (a mod 256) = n mod 256"
    by (simp_all add: a nat_div_distrib nat_mod_distrib)
  have l: "format_X 4 a = replicate (4 - length (hex_digits n)) CHR ''0'' @ hex_digits n"
    using assms by (simp add: format_X_def n_def Let_def)
  have r1: "format_X 2 (a div 256) = [hex_char (n div 256 div 16), hex_char (n div 256 mod 16)]"
    using assms by (subst format_X_byte) (auto simp add: hi)
  have r2: "format_X 2 (a mod 256) = [hex_char (n mod 256 div 16), hex_char (n mod 256 mod 16)]"
    using assms by (subst format_X_byte) (auto simp add: lo)
  have z: "hex_char 0 = CHR ''0''" by (simp add: hex_char_def hex_chars_def)
  have rep: "replicate 3 CHR ''0'' = ''000''" "replicate 2 CHR ''0'' = ''00''"
    by (simp_all add: numeral_3_eq_3 numeral_2_eq_2)
  have d256: "n div 256 = n div 16 div 16"
    using div_mult2_eq[of n 16 16] by simp
  have m1: "n mod 256 mod 16 = n mod 16" by (simp add: mod_mod_cancel)
  have m2: "n mod 256 div 16 = n div 16 mod 16"
    using mod_mult2_eq[of n 16 16] by simp
  have m3: "n div 256 mod 16 = n div 16 div 16 mod 16" by (simp only: d256)
  have m4: "n div 256 div 16 = n div 16 div 16 div 16" by (simp only: d256)
  consider "n < 16" | "16 \<le> n" "n < 256" | "256 \<le> n" "n < 4096" | "4096 \<le> n"
    by linarith
  then have "replicate (4 - length (hex_digits n)) CHR ''0'' @ hex_digits n =
        [hex_char (n div 16 div 16 div 16), hex_char (n div 16 div 16 mod 16),
         hex_char (n div 16 mod 16), hex_char (n mod 16)]"
  proof cases
    case 1
    then show ?thesis by (simp add: hex_digits.simps[of n] z rep)
  next
    case 2
    then have "n div 16 < 16" "n div 16 div 16 = 0" by auto
    with 2 show ?thesis
      by (simp add: hex_digits.simps[of n] hex_digits.simps[of "n div 16"] z rep)
  next
    case 3
    then have "\<not> n div 16 < 16" "n div 16 div 16 < 16" "n div 16 div 16 div 16 = 0" by auto
    with 3 show ?thesis
      by (simp add: hex_digits.simps[of n] hex_digits.simps[of "n div 16"]
            hex_digits.simps[of "n div 16 div 16"] z rep)
  next
    case 4
    then have "\<not> n div 16 < 16" "\<not> n div 16 div 16 < 16" "n div 16 div 16 div 16 < 16"
      using n by auto
    with 4 show ?thesis
      by (simp add: hex_digits.simps[of n] hex_digits.simps[of "n div 16"]
            hex_digits.simps[of "n div 16 div 16"] hex_digits.simps[of "n div 16 div 16 div 16"])
  qed
  then show ?thesis
    by (simp only: l r1 r2 m1 m2 m3 m4 append.simps)
qed

lemma decode_pairs_bytes:
  "\<forall>b \<in> set data. 0 \<le> b \<and> b \<le> 255 \<Longrightarrow>
   decode_pairs (concat (map (format_X 2) data) @ rest) =
     map_option ((@) data) (decode_pairs rest)"
proof (induction data)
  case Nil
  then show ?case by (simp add: option.map_ident)
next
  case (Cons b data)
  then have b: "0 \<le> b" "b \<le> 255" by auto
  have "decode_pairs (concat (map (format_X 2) (b # data)) @ rest) =
        decode_pairs (format_X 2 b @ (concat (map (format_X 2) data) @ rest))"
    by simp
  also have "\<dots> = map_option ((#) b) (decode_pairs (concat (map (format_X 2) data) @ rest))"
    by (rule decode_pairs_byte[OF b])
  also have "\<dots> = map_option ((@) (b # data)) (decode_pairs rest)"
    using Cons by (cases "decode_pairs rest") simp_all
  finally show ?case .
qed

lemma fold_append_format:
  "fold (\<lambda>byte_val r. r @ f byte_val) data r0 = r0 @ concat (map f data)"
  by (induction data arbitrary: r0) simp_all

lemma fold_add_sum: "fold (\<lambda>byte_val c. c + byte_val) data (c0::int) = c0 + sum_list data"
  by (induction data arbitrary: c0) simp_all

lemma record_bytes_frame: "record_bytes (CHR '':'' # body @ [newline]) = decode_pairs body"
  by (simp add: record_bytes_def)

lemma record_bytes_data:
  assumes "\<forall>b \<in> set data. 0 \<le> b \<and> b \<le> 255" "length data \<le> 255"
  shows "record_bytes (write_hex_record address data) =
         Some ([int (length data), (address mod 65536) div 256, (address mod 65536) mod 256, 0]
               @ data
               @ [(- (int (length data) + (address mod 65536) div 256 + (address mod 65536) mod 256
                      + 0 + sum_list data)) mod 256])"
proof -
  let ?a = "address mod 65536"
  let ?c = "(- (int (length data) + ?a div 256 + ?a mod 256 + 0 + sum_list data)) mod 256"
  have a: "0 \<le> ?a" "?a < 65536" by simp_all
  have ah: "0 \<le> ?a div 256" "?a div 256 \<le> 255" using a by auto
  have al: "0 \<le> ?a mod 256" "?a mod 256 \<le> 255" by auto
  have c: "0 \<le> ?c" "?c \<le> 255" by auto
  have n: "0 \<le> int (length data)" "int (length data) \<le> 255" using assms by auto
  have z: "(0::int) \<le> 0" "(0::int) \<le> 255" by auto
  have hi: "?a div 256 mod 256 = ?a div 256" using ah by simp
  have w: "write_hex_record address data =
        CHR '':'' # (format_X 2 (int (length data)) @ (format_X 2 (?a div 256) @ (format_X 2 (?a mod 256)
          @ (format_X 2 0 @ (concat (map (format_X 2) data) @ (format_X 2 ?c @ [])))))) @ [newline]"
    by (simp add: write_hex_record_def Let_def and_255 and_65535 drop_bit_8 fold_append_format
          fold_add_sum format_X_word[OF a] hi)
  have "decode_pairs (format_X 2 (int (length data)) @ (format_X 2 (?a div 256) @ (format_X 2 (?a mod 256)
          @ (format_X 2 0 @ (concat (map (format_X 2) data) @ (format_X 2 ?c @ [])))))) =
        Some ([int (length data), ?a div 256, ?a mod 256, 0] @ data @ [?c])"
    by (simp only: decode_pairs_byte[OF n] decode_pairs_byte[OF ah] decode_pairs_byte[OF al]
          decode_pairs_byte[OF z] decode_pairs_byte[OF c] decode_pairs_bytes[OF assms(1)]
          decode_pairs.simps option.map append.simps)
  then show ?thesis
    by (simp only: w record_bytes_frame)
qed

lemma checksum_total: "((s::int) + (- s) mod 256) mod 256 = 0"
  by (simp add: mod_add_right_eq)

lemma valid_record_intro:
  assumes "record_bytes line = Some ([n, ah, al, t] @ data @ [(- (n + ah + al + t + sum_list data)) mod 256])"
    and "n = int (length data)"
    and "t = 0 \<and> 1 \<le> n \<and> n \<le> 16 \<or> t = 4 \<and> n = 2 \<or> line = eof_record"
  shows "valid_record line"
proof -
  let ?s = "n + ah + al + t + sum_list data"
  let ?bs = "[n, ah, al, t] @ data @ [(- ?s) mod 256]"
  have bl: "butlast ?bs = [n, ah, al, t] @ data"
    by (simp add: butlast_append)
  have 1: "5 \<le> length ?bs" by simp
  have 2: "int (length ?bs) = 5 + hd ?bs" using assms(2) by simp
  have "sum_list ?bs = ?s + (- ?s) mod 256" by simp
  then have 3: "sum_list ?bs mod 256 = 0" by (simp only: checksum_total)
  have sb: "sum_list ([n, ah, al, t] @ data) = ?s" by simp
  have lb: "last ?bs = (- ?s) mod 256" by simp
  have 4: "last ?bs = (- sum_list (butlast ?bs)) mod 256"
    by (simp only: bl sb lb)
  have 5: "?bs ! 3 = t" "hd ?bs = n" by simp_all
  have "5 \<le> length ?bs \<and> int (length ?bs) = 5 + hd ?bs \<and>
          sum_list ?bs mod 256 = 0 \<and>
          last ?bs = (- sum_list (butlast ?bs)) mod 256 \<and>
          (?bs ! 3 = 0 \<and> 1 \<le> hd ?bs \<and> hd ?bs \<le> 16 \<or> ?bs ! 3 = 4 \<and> hd ?bs = 2 \<or> line = eof_record)"
    using 1 2 3 4 assms(3) unfolding 5 by blast
  then show ?thesis
    unfolding valid_record_def assms(1) option.case .
qed

lemma valid_write_hex_record:
  assumes "\<forall>b \<in> set data. 0 \<le> b \<and> b \<le> 255" "data \<noteq> []" "length data \<le> 16"
  shows "valid_record (write_hex_record address data)"
proof -
  have "length data \<le> 255" using assms by simp
  note rb = record_bytes_data[OF assms(1) this, of address]
  have l: "1 \<le> int (length data)" using assms(2) by (cases data) auto
  show ?thesis
    by (rule valid_record_intro[OF rb refl]) (use assms l in simp)
qed

lemma record_bytes_extended:
  "record_bytes (write_extended_address_record e) =
     Some ([2, 0, 0, 4] @ [e div 256 mod 256, e mod 256]
           @ [(- (2 + 0 + 0 + 4 + sum_list [e div 256 mod 256, e mod 256])) mod 256])"
proof -
  let ?h = "e div 256 mod 256"
  let ?l = "e mod 256"
  let ?c = "(- (2 + 0 + 0 + 4 + sum_list [?h, ?l])) mod 256"
  have h: "0 \<le> ?h" "?h \<le> 255" by auto
  have l: "0 \<le> ?l" "?l \<le> 255" by auto
  have c: "0 \<le> ?c" "?c \<le> 255" by auto
  have z: "(0::int) \<le> 0" "(0::int) \<le> 255" by auto
  have t: "(0::int) \<le> 2" "(2::int) \<le> 255" by auto
  have f: "(0::int) \<le> 4" "(4::int) \<le> 255" by auto
  have a0: "(0::int) \<le> 0" "(0::int) < 65536" by auto
  have w: "write_extended_address_record e =
        CHR '':'' # (format_X 2 2 @ (format_X 2 0 @ (format_X 2 0 @ (format_X 2 4
          @ (format_X 2 ?h @ (format_X 2 ?l @ (format_X 2 ?c @ []))))))) @ [newline]"
    by (simp add: write_extended_address_record_def Let_def and_255 drop_bit_8 format_X_word[OF a0]
          algebra_simps)
  have "decode_pairs (format_X 2 2 @ (format_X 2 0 @ (format_X 2 0 @ (format_X 2 4
          @ (format_X 2 ?h @ (format_X 2 ?l @ (format_X 2 ?c @ []))))))) =
        Some ([2, 0, 0, 4] @ [?h, ?l] @ [?c])"
    by (simp only: decode_pairs_byte[OF t] decode_pairs_byte[OF z] decode_pairs_byte[OF f]
          decode_pairs_byte[OF h] decode_pairs_byte[OF l] decode_pairs_byte[OF c]
          decode_pairs.simps option.map append.simps)
  then show ?thesis
    by (simp only: w record_bytes_frame)
qed

lemma valid_write_extended_address_record:
  "valid_record (write_extended_address_record e)"
  by (rule valid_record_intro[OF record_bytes_extended]) simp_all

lemma valid_eof_record: "valid_record eof_record"
  by code_simp

lemma write_pending_inv:
  assumes "\<forall>l \<in> set (written st). valid_record l"
    and "\<forall>b \<in> set (current_data st). 0 \<le> b \<and> b \<le> 255"
    and "length (current_data st) \<le> 16" and "current_data st \<noteq> []"
    and "current_address st = Some a"
  shows "\<exists>st'. write_pending st = Some st' \<and> (\<forall>l \<in> set (written st'). valid_record l) \<and>
           current_data st' = current_data st \<and> current_address st' = current_address st \<and>
           current_extended_addr st' = current_extended_addr st"
  using assms by (simp add: write_pending_def valid_write_hex_record)

lemma switch_extended_inv:
  assumes inv: "hex_inv st"
  shows "\<exists>s1. switch_extended st e = Some s1 \<and> hex_inv s1 \<and>
           current_extended_addr s1 = Some e \<and>
           (current_extended_addr st \<noteq> Some e \<longrightarrow>
              write_extended_address_record e \<in> set (written s1))"
proof (cases "Some e \<noteq> current_extended_addr st")
  case False
  then show ?thesis using inv by (simp add: switch_extended_def)
next
  case change: True
  show ?thesis
  proof (cases "current_data st = []")
    case True
    then show ?thesis
      using change inv
      by (simp add: switch_extended_def hex_inv_def valid_write_extended_address_record)
  next
    case False
    with inv obtain a where a: "current_address st = Some a" by (auto simp add: hex_inv_def)
    from inv False have "\<exists>st'. write_pending st = Some st' \<and>
         (\<forall>l \<in> set (written st'). valid_record l) \<and>
         current_data st' = current_data st \<and> current_address st' = current_address st \<and>
         current_extended_addr st' = current_extended_addr st"
      by (intro write_pending_inv[OF _ _ _ _ a]) (auto simp add: hex_inv_def)
    then obtain st' where "write_pending st = Some st'" "\<forall>l \<in> set (written st'). valid_record l"
      by blast
    then show ?thesis
      using change False
      by (simp add: switch_extended_def hex_inv_def valid_write_extended_address_record)
  qed
qed

lemma queue_byte_inv:
  assumes inv1: "hex_inv s1" and v: "0 \<le> v" "v \<le> 255"
  shows "\<exists>st'. queue_byte s1 addr v = Some st' \<and> hex_inv st' \<and>
           current_extended_addr st' = current_extended_addr s1 \<and>
           set (written s1) \<subseteq> set (written st')"
proof (cases "current_address s1")
  case None
  then show ?thesis using inv1 v by (simp add: queue_byte_def hex_inv_def)
next
  case (Some ca)
  show ?thesis
  proof (cases "addr = ca + int (length (current_data s1))")
    case True
    let ?s2 = "s1\<lparr>current_data := current_data s1 @ [v]\<rparr>"
    show ?thesis
    proof (cases "length (current_data ?s2) \<ge> 16")
      case False
      then show ?thesis using Some True inv1 v by (simp add: queue_byte_def hex_inv_def Let_def)
    next
      case full: True
      have "\<exists>st'. write_pending ?s2 = Some st' \<and>
         (\<forall>l \<in> set (written st'). valid_record l) \<and>
         current_data st' = current_data ?s2 \<and> current_address st' = current_address ?s2 \<and>
         current_extended_addr st' = current_extended_addr ?s2"
        using inv1 v Some by (intro write_pending_inv[where a = ca]) (auto simp add: hex_inv_def)
      then obtain st' where "write_pending ?s2 = Some st'" "\<forall>l \<in> set (written st'). valid_record l"
        "current_extended_addr st' = current_extended_addr ?s2"
        by blast
      moreover from this(1) have "set (written s1) \<subseteq> set (written st')"
        using Some by (auto simp add: write_pending_def)
      ultimately show ?thesis
        using Some True full by (simp add: queue_byte_def hex_inv_def Let_def)
    qed
  next
    case False
    show ?thesis
    proof (cases "current_data s1 = []")
      case True
      then show ?thesis using Some False inv1 v by (simp add: queue_byte_def hex_inv_def)
    next
      case ne: False
      have "\<exists>st'. write_pending s1 = Some st' \<and>
         (\<forall>l \<in> set (written st'). valid_record l) \<and>
         current_data st' = current_data s1 \<and> current_address st' = current_address s1 \<and>
         current_extended_addr st' = current_extended_addr s1"
        using inv1 ne Some by (intro write_pending_inv[where a = ca]) (auto simp add: hex_inv_def)
      then obtain st' where "write_pending s1 = Some st'" "\<forall>l \<in> set (written st'). valid_record l"
        "current_extended_addr st' = current_extended_addr s1"
        by blast
      moreover from this(1) have "set (written s1) \<subseteq> set (written st')"
        using Some by (auto simp add: write_pending_def)
      ultimately show ?thesis
        using Some False ne v by (simp add: queue_byte_def hex_inv_def)
    qed
  qed
qed

text \<open>
  One loop step keeps the invariant.  An address whose high 16 bits differ from the current
  extended address makes the step write an Extended Linear Address record for the new
  high half before the byte is queued.
\<close>

lemma hex_step_inv:
  assumes inv: "hex_inv st" and v: "map_of memory_image addr = Some v" "0 \<le> v" "v \<le> 255"
  shows "\<exists>st'. hex_step memory_image st addr = Some st' \<and> hex_inv st' \<and>
           current_extended_addr st' = Some ((drop_bit 16 addr) AND 0xFFFF) \<and>
           (current_extended_addr st \<noteq> Some ((drop_bit 16 addr) AND 0xFFFF) \<longrightarrow>
              write_extended_address_record ((drop_bit 16 addr) AND 0xFFFF) \<in> set (written st'))"
proof -
  let ?e = "(drop_bit 16 addr) AND 0xFFFF"
  from switch_extended_inv[OF inv, of ?e] obtain s1 where
    s1: "switch_extended st ?e = Some s1" "hex_inv s1" "current_extended_addr s1 = Some ?e"
      "current_extended_addr st \<noteq> Some ?e \<longrightarrow> write_extended_address_record ?e \<in> set (written s1)"
    by blast
  from queue_byte_inv[OF s1(2) v(2,3), of addr] obtain st' where
    st': "queue_byte s1 addr v = Some st'" "hex_inv st'"
      "current_extended_addr st' = current_extended_addr s1" "set (written s1) \<subseteq> set (written st')"
    by blast
  have "hex_step memory_image st addr = Some st'"
    using s1(1) v(1) st'(1) by (simp add: hex_step_def Let_def)
  then show ?thesis using s1 st' by auto
qed

lemma hex_loop_inv:
  "hex_inv st \<Longrightarrow>
   \<forall>a \<in> set addrs. \<exists>v. map_of memory_image a = Some v \<and> 0 \<le> v \<and> v \<le> 255 \<Longrightarrow>
   \<exists>st'. hex_loop memory_image st addrs = Some st' \<and> hex_inv st'"
proof (induction addrs arbitrary: st)
  case Nil
  then show ?case by simp
next
  case (Cons a addrs)
  from Cons.prems(2) obtain v where v: "map_of memory_image a = Some v" "0 \<le> v" "v \<le> 255"
    by auto
  from hex_step_inv[OF Cons.prems(1) v] obtain s1 where
    s1: "hex_step memory_image st a = Some s1" "hex_inv s1" by blast
  from Cons.IH[OF s1(2)] Cons.prems(2) obtain st' where
    "hex_loop memory_image s1 addrs = Some st'" "hex_inv st'" by auto
  with s1 show ?case by simp
qed

text \<open>
  Claim C8.  For a memory image of byte values the HEX writer succeeds, and every line it
  writes reads back as a record \<open>count, address-high, address-low, type, data \<dots>, checksum\<close>
  whose byte count matches its data, whose checksum byte is the two's complement of the
  sum of the other bytes, and whose bytes therefore sum to \<open>0\<close> modulo \<open>256\<close>.  Each line
  is a data record (type \<open>00\<close>) of 1 to 16 data bytes, an Extended Linear Address record
  (type \<open>04\<close>, two data bytes) or the end-of-file record, which is the last line.
\<close>

theorem intel_hex_records_valid:
  assumes "\<forall>(a, b) \<in> set memory_image. 0 \<le> b \<and> b \<le> 255"
  shows "\<exists>lines. generate_intel_hex_custom memory_image = Some lines \<and>
           (\<forall>l \<in> set lines. valid_record l) \<and> last lines = eof_record"
proof (cases "sort (map fst memory_image) = []")
  case True
  then show ?thesis
    by (simp add: generate_intel_hex_custom_def valid_eof_record)
next
  case False
  let ?init = "\<lparr>current_extended_addr = None, current_address = None,
                 current_data = [], written = []\<rparr>"
  have i: "hex_inv ?init" by (simp add: hex_inv_def)
  have m: "\<forall>a \<in> set (sort (map fst memory_image)).
             \<exists>v. map_of memory_image a = Some v \<and> 0 \<le> v \<and> v \<le> 255"
  proof
    fix a assume "a \<in> set (sort (map fst memory_image))"
    then have "a \<in> fst ` set memory_image" by simp
    then obtain v where v: "map_of memory_image a = Some v"
      by (metis domD dom_map_of_conv_image_fst)
    then have "(a, v) \<in> set memory_image" by (rule map_of_SomeD)
    with assms v show "\<exists>v. map_of memory_image a = Some v \<and> 0 \<le> v \<and> v \<le> 255" by auto
  qed
  from hex_loop_inv[OF i m] obtain st where
    st: "hex_loop memory_image ?init (sort (map fst memory_image)) = Some st" "hex_inv st" by blast
  show ?thesis
  proof (cases "current_data st = []")
    case True
    then show ?thesis
      using False st by (simp add: generate_intel_hex_custom_def hex_inv_def valid_eof_record)
  next
    case ne: False
    with st(2) obtain a where a: "current_address st = Some a" by (auto simp add: hex_inv_def)
    have "\<exists>st'. write_pending st = Some st' \<and>
           (\<forall>l \<in> set (written st'). valid_record l) \<and>
           current_data st' = current_data st \<and> current_address st' = current_address st \<and>
           current_extended_addr st' = current_extended_addr st"
      using st(2) ne by (intro write_pending_inv[OF _ _ _ _ a]) (auto simp add: hex_inv_def)
    then obtain st' where "write_pending st = Some st'" "\<forall>l \<in> set (written st'). valid_record l"
      by blast
    then show ?thesis
      using False st ne by (simp add: generate_intel_hex_custom_def valid_eof_record)
  qed
qed

text \<open>The theorem at the image of one 32-bit word at \<open>0x80000000\<close>.\<close>

theorem intel_hex_records_valid_witness:
  "generate_intel_hex_custom
     [(0x80000000, 0x0D), (0x80000001, 0), (0x80000002, 0), (0x80000003, 0)] =
   Some ['':0200000480007A'' @ [newline], '':040000000D000000EF'' @ [newline], eof_record] \<and>
   valid_record ('':0200000480007A'' @ [newline]) \<and>
   valid_record ('':040000000D000000EF'' @ [newline]) \<and>
   valid_record eof_record"
proof -
  have h: "\<forall>(a, b) \<in> set [(0x80000000, 0x0D), (0x80000001, 0), (0x80000002, 0), (0x80000003, 0::int)].
       0 \<le> b \<and> b \<le> 255"
    by simp
  have e: "generate_intel_hex_custom
     [(0x80000000, 0x0D), (0x80000001, 0), (0x80000002, 0), (0x80000003, 0)] =
   Some ['':0200000480007A'' @ [newline], '':040000000D000000EF'' @ [newline], eof_record]"
    by code_simp
  from intel_hex_records_valid[OF h] e show ?thesis by auto
qed

lemma intel_hex_example:
  "generate_intel_hex_custom
     [(0x80000000, 0x0D), (0x80000001, 0), (0x80000002, 0), (0x80000003, 0)] =
   Some ['':0200000480007A'' @ [newline], '':040000000D000000EF'' @ [newline],
         '':00000001FF'' @ [newline]]"
  by code_simp

section \<open>Properties of the memory image\<close>

lemma map_of_store_opcode:
  "map_of (store_opcode le m a opc) =
     (if le then (map_of m)(a \<mapsto> opc AND 0xFF, a + 1 \<mapsto> (drop_bit 8 opc) AND 0xFF,
                           a + 2 \<mapsto> (drop_bit 16 opc) AND 0xFF, a + 3 \<mapsto> (drop_bit 24 opc) AND 0xFF)
      else (map_of m)(a \<mapsto> (drop_bit 24 opc) AND 0xFF, a + 1 \<mapsto> (drop_bit 16 opc) AND 0xFF,
                       a + 2 \<mapsto> (drop_bit 8 opc) AND 0xFF, a + 3 \<mapsto> opc AND 0xFF))"
  by (simp add: store_opcode_def update_conv')

lemma high_bytes_zero:
  assumes "0 \<le> opc" "opc < 65536"
  shows "(drop_bit 16 opc) AND 0xFF = (0::int)" "(drop_bit 24 opc) AND 0xFF = (0::int)"
  using assms by (simp_all add: drop_bit_eq_div)

lemma keys_store_opcode:
  "set (map fst (store_opcode le m a opc)) = set (map fst m) \<union> {a, a + 1, a + 2, a + 3}"
proof -
  have "fst ` set (store_opcode le m a opc) = dom (map_of (store_opcode le m a opc))"
    by (simp add: dom_map_of_conv_image_fst)
  also have "\<dots> = dom (map_of m) \<union> {a, a + 1, a + 2, a + 3}"
    by (auto simp add: map_of_store_opcode)
  finally show ?thesis by (simp add: dom_map_of_conv_image_fst)
qed

lemma find_conflicts_distinct:
  "distinct xs \<Longrightarrow> set xs \<inter> set occupied = {} \<Longrightarrow> find_conflicts occupied xs = []"
proof (induction xs arbitrary: occupied)
  case Nil
  show ?case by simp
next
  case (Cons x xs)
  from Cons.prems have "distinct xs" "set xs \<inter> set (x # occupied) = {}" "x \<notin> set occupied"
    by auto
  with Cons.IH[of "x # occupied"] show ?case by simp
qed

lemma single_record_no_conflict: "check_address_conflicts [r]"
proof -
  obtain a opc operand source_text source_file sz where r: "r = (a, opc, operand, source_text, source_file, sz)"
    by (cases r)
  have "distinct (map (\<lambda>offset. a + int offset) [0..<n])" for n
    by (simp add: distinct_map inj_on_def)
  then show ?thesis
    by (simp add: check_address_conflicts_def record_addresses_def r find_conflicts_distinct)
qed

lemma single_record_image:
  assumes "\<not> is_data_directive_record source_text"
  shows "memory_image_of le handler [(a, opc, operand, source_text, source_file, sz)] =
         Memory_image (store_opcode le [] a opc)"
  using assms single_record_no_conflict[of "(a, opc, operand, source_text, source_file, sz)"]
  by (simp add: memory_image_of_def emit_record_def)

lemma store_opcode_16:
  assumes "0 \<le> opc" "opc < 65536"
  shows "store_opcode le [] a opc =
         (if le then [(a, opc AND 0xFF), (a + 1, (drop_bit 8 opc) AND 0xFF), (a + 2, 0), (a + 3, 0)]
          else [(a, 0), (a + 1, 0), (a + 2, (drop_bit 8 opc) AND 0xFF), (a + 3, opc AND 0xFF)])"
  using high_bytes_zero[OF assms] by (simp add: store_opcode_def)

lemma binary_output_four:
  "binary_output [(a, b0), (a + 1, b1), (a + 2, b2), (a + 3, b3)] = Some [b0, b1, b2, b3]"
proof -
  have r: "replicate 4 (0::int) = [0, 0, 0, 0]" by (simp add: eval_nat_numeral)
  have n: "nat 2 = Suc (Suc 0)" "nat 3 = Suc (Suc (Suc 0))" by simp_all
  show ?thesis by (simp add: binary_output_def Let_def r n)
qed

text \<open>
  Claim C9.  A linked record whose first word is not a data directive is written by the
  opcode path whatever its recorded size: exactly the four addresses \<open>address \<dots> address+3\<close>
  receive the four bytes of the opcode word in the configured byte order and every other
  address of the image is left as it was.  For a 16-bit opcode value the position of the two
  zero bytes depends on the byte order.  In little-endian mode they are the two extra bytes
  at \<open>address+2\<close> and \<open>address+3\<close>, so the image of such a record and its binary
  serialisation extend two zero bytes beyond the instruction.  In big-endian mode the zero
  bytes are written at \<open>address\<close> and \<open>address+1\<close> and the two extra bytes at \<open>address+2\<close> and
  \<open>address+3\<close> hold the two bytes of the instruction.
\<close>

theorem instruction_record_writes_four_bytes:
  assumes "\<not> is_data_directive_record source_text"
  shows "\<exists>m'. emit_record le handler m (address, opcode, operand, source_text, source_file, sz) = Some m' \<and>
           map_of m' =
             (if le then (map_of m)(address \<mapsto> opcode AND 0xFF,
                                    address + 1 \<mapsto> (drop_bit 8 opcode) AND 0xFF,
                                    address + 2 \<mapsto> (drop_bit 16 opcode) AND 0xFF,
                                    address + 3 \<mapsto> (drop_bit 24 opcode) AND 0xFF)
              else (map_of m)(address \<mapsto> (drop_bit 24 opcode) AND 0xFF,
                              address + 1 \<mapsto> (drop_bit 16 opcode) AND 0xFF,
                              address + 2 \<mapsto> (drop_bit 8 opcode) AND 0xFF,
                              address + 3 \<mapsto> opcode AND 0xFF)) \<and>
           set (map fst m') = set (map fst m) \<union> {address, address + 1, address + 2, address + 3} \<and>
           (0 \<le> opcode \<and> opcode < 65536 \<longrightarrow>
              (le \<longrightarrow> map_of m' (address + 2) = Some 0 \<and> map_of m' (address + 3) = Some 0) \<and>
              (\<not> le \<longrightarrow> map_of m' address = Some 0 \<and> map_of m' (address + 1) = Some 0 \<and>
                        map_of m' (address + 2) = Some ((drop_bit 8 opcode) AND 0xFF) \<and>
                        map_of m' (address + 3) = Some (opcode AND 0xFF)) \<and>
              memory_image_of le handler [(address, opcode, operand, source_text, source_file, sz)] =
                Memory_image
                  (if le then [(address, opcode AND 0xFF), (address + 1, (drop_bit 8 opcode) AND 0xFF),
                               (address + 2, 0), (address + 3, 0)]
                   else [(address, 0), (address + 1, 0),
                         (address + 2, (drop_bit 8 opcode) AND 0xFF), (address + 3, opcode AND 0xFF)]) \<and>
              binary_output
                  (if le then [(address, opcode AND 0xFF), (address + 1, (drop_bit 8 opcode) AND 0xFF),
                               (address + 2, 0), (address + 3, 0)]
                   else [(address, 0), (address + 1, 0),
                         (address + 2, (drop_bit 8 opcode) AND 0xFF), (address + 3, opcode AND 0xFF)]) =
                Some (if le then [opcode AND 0xFF, (drop_bit 8 opcode) AND 0xFF, 0, 0]
                      else [0, 0, (drop_bit 8 opcode) AND 0xFF, opcode AND 0xFF]))"
proof -
  let ?m' = "store_opcode le m address opcode"
  have e: "emit_record le handler m (address, opcode, operand, source_text, source_file, sz) = Some ?m'"
    using assms by (simp add: emit_record_def)
  have z: "0 \<le> opcode \<and> opcode < 65536 \<longrightarrow>
              (le \<longrightarrow> map_of ?m' (address + 2) = Some 0 \<and> map_of ?m' (address + 3) = Some 0) \<and>
              (\<not> le \<longrightarrow> map_of ?m' address = Some 0 \<and> map_of ?m' (address + 1) = Some 0 \<and>
                        map_of ?m' (address + 2) = Some ((drop_bit 8 opcode) AND 0xFF) \<and>
                        map_of ?m' (address + 3) = Some (opcode AND 0xFF))"
    by (simp add: map_of_store_opcode high_bytes_zero)
  have i: "0 \<le> opcode \<and> opcode < 65536 \<longrightarrow>
              memory_image_of le handler [(address, opcode, operand, source_text, source_file, sz)] =
                Memory_image
                  (if le then [(address, opcode AND 0xFF), (address + 1, (drop_bit 8 opcode) AND 0xFF),
                               (address + 2, 0), (address + 3, 0)]
                   else [(address, 0), (address + 1, 0),
                         (address + 2, (drop_bit 8 opcode) AND 0xFF), (address + 3, opcode AND 0xFF)])"
    using store_opcode_16[of opcode le address] by (simp add: single_record_image[OF assms])
  have b: "binary_output
                  (if le then [(address, opcode AND 0xFF), (address + 1, (drop_bit 8 opcode) AND 0xFF),
                               (address + 2, 0), (address + 3, 0)]
                   else [(address, 0), (address + 1, 0),
                         (address + 2, (drop_bit 8 opcode) AND 0xFF), (address + 3, opcode AND 0xFF)]) =
                Some (if le then [opcode AND 0xFF, (drop_bit 8 opcode) AND 0xFF, 0, 0]
                      else [0, 0, (drop_bit 8 opcode) AND 0xFF, opcode AND 0xFF])"
    by (simp add: binary_output_four)
  note mo = map_of_store_opcode[of le m address opcode]
  note ks = keys_store_opcode[of le m address opcode]
  from e mo ks z i b show ?thesis by blast
qed

text \<open>
  The theorem at \<open>MOV D4, #1\<close> (\<open>0x1482\<close>, recorded size 2) in little-endian mode: the image
  and the binary output are four bytes long and end in two zero bytes.
\<close>

theorem instruction_record_writes_four_bytes_witness:
  "\<not> is_data_directive_record ''MOV D4, #1'' \<and>
   memory_image_of True (\<lambda>_ _ _ _. Data_exception) [(0x80000000, 0x1482, None, ''MOV D4, #1'', ''a.obj'', 2)] =
     Memory_image [(0x80000000, 0x82), (0x80000001, 0x14), (0x80000002, 0), (0x80000003, 0)] \<and>
   binary_output [(0x80000000, 0x82), (0x80000001, 0x14), (0x80000002, 0), (0x80000003, 0)] =
     Some [0x82, 0x14, 0, 0] \<and>
   (\<exists>m'. emit_record True (\<lambda>_ _ _ _. Data_exception) [] (0x80000000, 0x1482, None, ''MOV D4, #1'', ''a.obj'', 2) = Some m' \<and>
      map_of m' (0x80000000 + 2) = Some 0 \<and> map_of m' (0x80000000 + 3) = Some 0)"
proof -
  have h: "\<not> is_data_directive_record ''MOV D4, #1''" by code_simp
  have r: "(0x1482::int) AND 0xFF = 0x82" "(drop_bit 8 (0x1482::int)) AND 0xFF = 0x14"
    by code_simp+
  from instruction_record_writes_four_bytes[OF h, of True "\<lambda>_ _ _ _. Data_exception" "[]"
      "0x80000000" "0x1482" None "''a.obj''" 2]
  obtain m' where "emit_record True (\<lambda>_ _ _ _. Data_exception) [] (0x80000000, 0x1482, None, ''MOV D4, #1'', ''a.obj'', 2) = Some m'"
    and "map_of m' (0x80000000 + 2) = Some 0 \<and> map_of m' (0x80000000 + 3) = Some 0"
    and "memory_image_of True (\<lambda>_ _ _ _. Data_exception) [(0x80000000, 0x1482, None, ''MOV D4, #1'', ''a.obj'', 2)] =
           Memory_image [(0x80000000, 0x1482 AND 0xFF), (0x80000000 + 1, (drop_bit 8 0x1482) AND 0xFF),
                         (0x80000000 + 2, 0), (0x80000000 + 3, 0)]"
    and "binary_output [(0x80000000, 0x1482 AND 0xFF), (0x80000000 + 1, (drop_bit 8 0x1482) AND 0xFF),
                         (0x80000000 + 2, 0), (0x80000000 + 3, 0)] =
           Some [0x1482 AND 0xFF, (drop_bit 8 0x1482) AND 0xFF, 0, 0]"
    by auto
  with h r show ?thesis by auto
qed

text \<open>
  In big-endian mode the two extra bytes of the same record are not zero: they are the two
  bytes of the instruction, and the zero bytes come first.
\<close>

theorem big_endian_extra_bytes_counterexample:
  "\<not> is_data_directive_record ''MOV D4, #1'' \<and>
   memory_image_of False (\<lambda>_ _ _ _. Data_exception) [(0x80000000, 0x1482, None, ''MOV D4, #1'', ''a.obj'', 2)] =
     Memory_image [(0x80000000, 0), (0x80000001, 0), (0x80000002, 0x14), (0x80000003, 0x82)] \<and>
   binary_output [(0x80000000, 0), (0x80000001, 0), (0x80000002, 0x14), (0x80000003, 0x82)] =
     Some [0, 0, 0x14, 0x82]"
  by code_simp

text \<open>Two records at the same address are refused by the conflict check.\<close>

lemma conflicting_records_refused:
  "memory_image_of True (\<lambda>_ _ _ _. Data_exception)
     [(0x1000, 0x1482, None, ''MOV D4, #1'', ''a.obj'', 2), (0x1000, 0x1282, None, ''MOV D2, #1'', ''b.obj'', 2)] =
   Generation_failed"
  by code_simp

section \<open>Properties of the numeric parser\<close>

lemma py_int_error: "py_int s b = Inl e \<Longrightarrow> e = ValueError"
  by (auto simp add: py_int_def Let_def split: option.splits)

lemma parse_error: "parse s = Inl e \<Longrightarrow> e = ValueError"
  by (auto simp add: parse_def Let_def split: if_splits dest: py_int_error)

lemma parse_numeric_error: "parse_numeric s = Inl e \<Longrightarrow> e = ValueError"
  by (auto simp add: parse_numeric_def parse_with_sign_def Let_def
        split: if_splits sum.splits dest: parse_error)

text \<open>
  Claim C1.  Zero rendered in the trailing-\<open>b\<close> binary form is \<open>0b\<close> and in the trailing-\<open>o\<close>
  octal form \<open>0o\<close>.  The parser takes both for a prefix without digits and fails with
  \<open>ValueError\<close>, so the round trip does not return \<open>0\<close> there; the sibling forms \<open>0y\<close>, \<open>0q\<close>,
  \<open>0h\<close> and \<open>0d\<close>, whose prefix tests require more than two characters, parse to \<open>0\<close>.
\<close>

theorem zero_suffix_forms_rejected:
  "render Bin_suffix_b 0 = ''0b'' \<and> parse_numeric (render Bin_suffix_b 0) = Inl ValueError \<and>
   render Oct_suffix_o 0 = ''0o'' \<and> parse_numeric (render Oct_suffix_o 0) = Inl ValueError \<and>
   parse_numeric (render Bin_suffix_y 0) = Inr 0 \<and> parse_numeric (render Oct_suffix_q 0) = Inr 0 \<and>
   parse_numeric (render Hex_suffix_h 0) = Inr 0 \<and> parse_numeric (render Dec_suffix_d 0) = Inr 0"
  by code_simp

section \<open>Properties of the data directive handler\<close>

lemma parse_value_total: "\<exists>v. parse_value py_float equ_constants label_table s = Inr v"
proof -
  have "\<exists>v. (case parse_numeric t of
                Inr n \<Rightarrow> Inr (VInt n)
              | Inl ValueError \<Rightarrow> Inr (VInt 0)
              | Inl e \<Rightarrow> Inl e) = (Inr v :: py_error + 'a py_value)" for t
    by (cases "parse_numeric t") (auto dest: parse_numeric_error)
  then show ?thesis
    by (auto simp add: parse_value_def Let_def split: option.splits)
qed

lemma int_to_bytes_zero: "int_to_bytes sz little 0 = Some (replicate sz 0)"
proof -
  have "map (\<lambda>i. (0::int)) [0 ..< sz] = replicate sz 0"
    by (simp add: map_replicate_const)
  then show ?thesis by (simp add: int_to_bytes_def Let_def)
qed

text \<open>
  Claim C10.  \<open>parse_value\<close> returns a value for every operand text, it never raises.  An
  operand that is no quoted literal, no float, no known EQU constant, no known label and
  no parseable numeric constant evaluates to the integer \<open>0\<close>, and that value is encoded by
  every data directive \<open>DB\<close>, \<open>DW\<close>, \<dots> as bytes of value zero (as many as the element size).
\<close>

theorem parse_value_unrecognized_is_zero:
  "(\<exists>v. parse_value py_float equ_constants label_table s = Inr v) \<and>
   (unrecognized_operand py_float equ_constants label_table s \<longrightarrow>
      parse_value py_float equ_constants label_table s = Inr (VInt 0) \<and>
      (\<forall>(d, sz) \<in> set data_sizes.
         encode_data pack_float little d [VInt 0 :: 'f py_value] = Inr (replicate sz 0)))"
proof (intro conjI impI)
  show "\<exists>v. parse_value py_float equ_constants label_table s = Inr v" by (rule parse_value_total)
next
  assume u: "unrecognized_operand py_float equ_constants label_table s"
  then obtain e where "parse_numeric (py_strip s) = Inl e"
    by (auto simp add: unrecognized_operand_def Let_def split: sum.splits)
  moreover from this have "e = ValueError" by (rule parse_numeric_error)
  ultimately show "parse_value py_float equ_constants label_table s = Inr (VInt 0)"
    using u by (auto simp add: unrecognized_operand_def parse_value_def Let_def)
next
  show "\<forall>(d, sz) \<in> set data_sizes.
         encode_data pack_float little d [VInt 0 :: 'f py_value] = Inr (replicate sz 0)"
    by (simp add: data_sizes_def encode_data_def encode_value_def int_to_bytes_zero
          py_upper_def upper_char_def lower_letters_def upper_letters_def)
qed

text \<open>The theorem at the misspelled symbol \<open>lenght\<close> with one constant \<open>length\<close> defined.\<close>

theorem parse_value_unrecognized_is_zero_witness:
  "unrecognized_operand (\<lambda>_. None :: unit option) [''length'' \<mapsto> 16] Map.empty ''lenght'' \<and>
   parse_value (\<lambda>_. None :: unit option) [''length'' \<mapsto> 16] Map.empty ''lenght'' = Inr (VInt 0) \<and>
   encode_data (\<lambda>_ _ _. []) True ''DW'' [VInt 0 :: unit py_value] = Inr [0, 0]"
proof -
  have u: "unrecognized_operand (\<lambda>_. None :: unit option) [''length'' \<mapsto> 16] Map.empty ''lenght''"
    by code_simp
  have d: "(''DW'', 2) \<in> set data_sizes" by (simp add: data_sizes_def)
  from parse_value_unrecognized_is_zero[of "\<lambda>_. None :: unit option" "[''length'' \<mapsto> 16]"
      Map.empty "''lenght''" "\<lambda>_ _ _. []" True] u d
  have "parse_value (\<lambda>_. None :: unit option) [''length'' \<mapsto> 16] Map.empty ''lenght'' = Inr (VInt 0)"
    and "encode_data (\<lambda>_ _ _. []) True ''DW'' [VInt 0 :: unit py_value] = Inr (replicate 2 0)"
    by auto
  then show ?thesis using u by (simp add: numeral_2_eq_2)
qed

section \<open>Properties of the two passes\<close>

text \<open>
  Claim C5, as the code has it.  When pass 1 meets a line that defines a label whose name
  is already in the label table, it logs \<open>DUPLICATE_LABEL\<close> for that line and returns
  failure at once: whatever lines follow are not looked at, and apart from the logged
  error the assembler (labels, listing, origin) is as it was before the line.
\<close>

theorem duplicate_label_aborts_first_pass:
  assumes "defines_label line name" and "name \<in> fst ` set (asm_labels st)"
  shows "first_pass_loop env st addr line_num (line # rest) =
           (False, log_error DUPLICATE_LABEL line_num st)"
proof -
  have "first_pass_line env st addr line_num line = Inl (log_error DUPLICATE_LABEL line_num st)"
    using assms by (auto simp add: first_pass_line_def defines_label_def Let_def)
  then show ?thesis by simp
qed

text \<open>The theorem at the line \<open>start: NOP\<close> after \<open>start\<close> has been defined.\<close>

theorem duplicate_label_aborts_first_pass_witness:
  "defines_label ''start: NOP'' ''start'' \<and>
   ''start'' \<in> fst ` set (asm_labels ((new_assembler ())\<lparr>asm_labels := [(''start'', 0x80000000, 1)]\<rparr>)) \<and>
   first_pass_loop nop_collaborators ((new_assembler ())\<lparr>asm_labels := [(''start'', 0x80000000, 1)]\<rparr>)
       0x80000004 3 [''start: NOP'', ''later:''] =
     (False, log_error DUPLICATE_LABEL 3 ((new_assembler ())\<lparr>asm_labels := [(''start'', 0x80000000, 1)]\<rparr>))"
proof -
  have d: "defines_label ''start: NOP'' ''start''" by code_simp
  have l: "''start'' \<in> fst ` set (asm_labels ((new_assembler ())\<lparr>asm_labels := [(''start'', 0x80000000, 1)]\<rparr>))"
    by simp
  from duplicate_label_aborts_first_pass[OF d l] d l show ?thesis by blast
qed

text \<open>
  The claim as stated fails on this source: after the second \<open>start:\<close> in line 3 the pass
  has returned failure, the label \<open>later\<close> of line 4 is not collected and line 4 is not
  listed.
\<close>

theorem duplicate_label_continue_counterexample:
  "fst (first_pass nop_collaborators (new_assembler ())
          [''start:'', ''NOP'', ''start: NOP'', ''later:'']) = False \<and>
   map fst (asm_labels (snd (first_pass nop_collaborators (new_assembler ())
          [''start:'', ''NOP'', ''start: NOP'', ''later:'']))) = [''start''] \<and>
   map fst (source_listing (snd (first_pass nop_collaborators (new_assembler ())
          [''start:'', ''NOP'', ''start: NOP'', ''later:'']))) = [1, 2] \<and>
   logged_errors (snd (first_pass nop_collaborators (new_assembler ())
          [''start:'', ''NOP'', ''start: NOP'', ''later:''])) = [(DUPLICATE_LABEL, 3)]"
  by code_simp

text \<open>Only an \<open>.ORG\<close> line changes the origin stored in the assembler during pass 1.\<close>

lemma log_error_origin [simp]: "asm_current_address (log_error c n st) = asm_current_address st"
  by (simp add: log_error_def)

lemma first_pass_size_origin:
  "first_pass_size env st addr n ol t = Inl st' \<Longrightarrow> asm_current_address st' = asm_current_address st"
  "first_pass_size env st addr n ol t = Inr (st', a') \<Longrightarrow> asm_current_address st' = asm_current_address st"
  by (auto simp add: first_pass_size_def split: if_splits option.splits)

lemma first_pass_line_origin:
  assumes "\<not> is_org_line line"
  shows "first_pass_line env st addr n line = Inl st' \<Longrightarrow>
           asm_current_address st' = asm_current_address st"
    and "first_pass_line env st addr n line = Inr (st', a') \<Longrightarrow>
           asm_current_address st' = asm_current_address st"
  using assms
  by (auto simp add: first_pass_line_def is_org_line_def Let_def
        split: if_splits option.splits dest: first_pass_size_origin)

lemma first_pass_loop_origin:
  "\<forall>l \<in> set source_lines. \<not> is_org_line l \<Longrightarrow>
   asm_current_address (snd (first_pass_loop env st addr n source_lines)) = asm_current_address st"
proof (induction source_lines arbitrary: st addr n)
  case Nil
  then show ?case by simp
next
  case (Cons l ls)
  then have l: "\<not> is_org_line l" by simp
  show ?case
  proof (cases "first_pass_line env st addr n l")
    case (Inl st')
    then show ?thesis using first_pass_line_origin(1)[OF l Inl] by simp
  next
    case (Inr p)
    obtain st' a' where p: "p = (st', a')" by (cases p)
    have "asm_current_address st' = asm_current_address st"
      using first_pass_line_origin(2)[OF l] Inr p by simp
    moreover have "asm_current_address (snd (first_pass_loop env st' a' (Suc n) ls)) =
                   asm_current_address st'"
      using Cons by simp
    ultimately show ?thesis using Inr p by simp
  qed
qed

text \<open>
  Claim C6.  Pass 2 starts from the origin stored in the assembler, which an \<open>.ORG\<close> line of
  pass 1 has overwritten.  For the source \<open>NOP / .ORG 0x1000 / NOP\<close> both passes succeed,
  pass 1 lists line 1 at the default origin \<open>0x80000000\<close>, and pass 2 emits the record of
  line 1 at \<open>0x1000\<close>, the same address as the record of line 3.
\<close>

theorem org_after_code_addresses_disagree:
  "fst (two_passes nop_collaborators (new_assembler ()) [''NOP'', ''.ORG 0x1000'', ''NOP'']) = True \<and>
   tentative_address (snd (two_passes nop_collaborators (new_assembler ())
                             [''NOP'', ''.ORG 0x1000'', ''NOP''])) 1 = Some 0x80000000 \<and>
   final_address (snd (two_passes nop_collaborators (new_assembler ())
                         [''NOP'', ''.ORG 0x1000'', ''NOP''])) 1 = Some 0x1000 \<and>
   final_address (snd (two_passes nop_collaborators (new_assembler ())
                         [''NOP'', ''.ORG 0x1000'', ''NOP''])) 3 = Some 0x1000"
  by code_simp

section \<open>Split operands are encoded window by window\<close>









text \<open>The jump row of the table, and a value too wide for the sixteen bits of the store row.\<close>

lemma split_operand_examples:
  "encode_split_operand_instruction example_operands j_row 0x1D [''74565''] = Some 0x2345011D"
  "encode_split_operand_instruction example_operands st_w_row 0x59 [''A12'', ''70000'', ''D15''] = None"
  by code_simp+

section \<open>A row for a fixed register is preferred for that register\<close>











section \<open>A register operand makes the range selection prefer the larger row\<close>

text \<open>
  Claim C2.  The range selection takes every operand without a numeric value for a label,
  and a register has no numeric value.  For \<open>MOV.A A4, D2\<close>, an instruction of two registers
  without any label, both rows have placeholders only and both fit, yet the 32-bit row is
  returned, and the encoder does not select again for this mnemonic.  An instruction of
  numeric operands only, \<open>J 16\<close>, gets the 16-bit row.
\<close>

theorem register_operand_selects_wide_variant:
  "find_instruction False False mova_table ''MOV.A'' 2
     [\<lparr>op_text = ''A4'', op_type = ''reg_a''\<rparr>, \<lparr>op_text = ''D2'', op_type = ''reg_d''\<rparr>] =
     Inr (Some mova_wide_row) \<and>
   opcode_size mova_wide_row = 32 \<and> opcode_size mova_short_row = 16 \<and>
   candidates False False mova_table ''MOV.A'' 2 = [mova_short_row, mova_wide_row] \<and>
   can_fit [''A4'', ''D2''] mova_short_row = Inr True \<and>
   can_fit [''A4'', ''D2''] mova_wide_row = Inr True \<and>
   map (\<lambda>p. fst (is_specific_register_syntax p))
     (extract_operand_patterns (d_syntax mova_short_row) @ extract_operand_patterns (d_syntax mova_wide_row)) =
     [False, False, False, False] \<and>
   map operand_value [''A4'', ''D2''] = [None, None] \<and>
   \<not> selects_again mova_table ''MOV.A'' \<and>
   find_instruction False False jump_table ''J'' 1 [\<lparr>op_text = ''16'', op_type = ''imm''\<rparr>] =
     Inr (Some j_short_row)"
  by code_simp

end
